theory Spec2Isabelle
  imports Complex_Main
begin

section \<open>The mecanum drive plugin: data model\<close>

text \<open>
  The development embeds \<^verbatim>\<open>mecanum_drive_plugin.cpp\<close>.

  A value of the C++ type \<^verbatim>\<open>double\<close> is either a finite number or one of the
  values that are not finite (an infinity or a NaN), which stand together as
  \<open>NonFinite\<close>. The arithmetic of finite values is exact: rounding and overflow
  are not represented in this type (the section on binary64 below has the
  rounding). An operation with an operand that is not finite gives a result
  that is not finite, as sums, differences, products, \<^verbatim>\<open>cos\<close> and \<^verbatim>\<open>sin\<close> do in
  IEEE 754. A division gives a result that is not finite when its divisor is
  zero; every divisor of the plugin is a literal or comes from the geometry
  parameters, which the configuration gives as finite numbers, so a divisor is
  a \<^typ>\<open>real\<close>. Gazebo's \<^verbatim>\<open>Time\<close> is modelled by its \<^verbatim>\<open>Double()\<close> value, a finite
  number.
\<close>

datatype double = is_Finite: Finite real | NonFinite

instantiation double :: "{plus, minus, times, uminus}"
begin

fun plus_double :: "double \<Rightarrow> double \<Rightarrow> double" where
  "plus_double (Finite x) (Finite y) = Finite (x + y)"
| "plus_double a b = NonFinite"

fun minus_double :: "double \<Rightarrow> double \<Rightarrow> double" where
  "minus_double (Finite x) (Finite y) = Finite (x - y)"
| "minus_double a b = NonFinite"

fun times_double :: "double \<Rightarrow> double \<Rightarrow> double" where
  "times_double (Finite x) (Finite y) = Finite (x * y)"
| "times_double a b = NonFinite"

fun uminus_double :: "double \<Rightarrow> double" where
  "uminus_double (Finite x) = Finite (- x)"
| "uminus_double NonFinite = NonFinite"

instance ..

end

text \<open>\<^verbatim>\<open>a / d\<close> for a finite divisor: \<^verbatim>\<open>x / 0\<close> is an infinity, or a NaN when \<^verbatim>\<open>x\<close> is zero.\<close>

fun ddiv :: "double \<Rightarrow> real \<Rightarrow> double" where
  "ddiv (Finite x) d = (if d = 0 then NonFinite else Finite (x / d))"
| "ddiv NonFinite d = NonFinite"

fun dcos :: "double \<Rightarrow> double" where
  "dcos (Finite x) = Finite (cos x)"
| "dcos NonFinite = NonFinite"

fun dsin :: "double \<Rightarrow> double" where
  "dsin (Finite x) = Finite (sin x)"
| "dsin NonFinite = NonFinite"

text \<open>The anonymous enum that indexes \<^verbatim>\<open>joints\<close> and \<^verbatim>\<open>wheelSpeed\<close>.\<close>

datatype wheel = FRONT_RIGHT | FRONT_LEFT | BACK_RIGHT | BACK_LEFT

text \<open>\<^verbatim>\<open>gzthrow(msg)\<close> raises a \<^verbatim>\<open>GazeboError\<close> that carries the message.\<close>

datatype error = GazeboError string

text \<open>
  \<^verbatim>\<open>ParamT<T>(key, defaultValue, required)\<close>: a named, typed parameter of the
  controller. \<open>GetValue\<close> is what \<^verbatim>\<open>**param\<close> and \<^verbatim>\<open>param->GetValue()\<close> read.
\<close>

record 'a ParamT =
  key :: string
  defaultValue :: 'a
  required :: nat
  GetValue :: 'a

definition new_ParamT :: "string \<Rightarrow> 'a \<Rightarrow> nat \<Rightarrow> 'a ParamT" where
  "new_ParamT k d r = \<lparr>key = k, defaultValue = d, required = r, GetValue = d\<rparr>"

text \<open>
  The simulator-facing position interface (\<^verbatim>\<open>pos_iface_->data\<close>): only the fields
  the plugin reads or writes.
\<close>

record PositionData =
  head_time :: double
  pose_pos_x :: double
  pose_pos_y :: double
  pose_pos_z :: double
  pose_roll :: double
  pose_pitch :: double
  pose_yaw :: double
  velocity_pos_x :: double
  velocity_pos_y :: double
  velocity_yaw :: double
  stall :: int

text \<open>
  The members of the class. A joint pointer is modelled by the name of the joint
  it points to (a model holds one joint per name); arrays are functions of their
  index. An Isabelle name cannot end with an underscore, so the members
  \<^verbatim>\<open>x_\<close>, \<^verbatim>\<open>y_\<close>, \<^verbatim>\<open>rot_\<close>, \<^verbatim>\<open>alive_\<close> and \<^verbatim>\<open>pos_iface_\<close> carry a prime.
\<close>

record MecanumDrivePlugin =
  enableMotors :: bool
  wheelSpeed :: "wheel \<Rightarrow> double"
  prevUpdateTime :: real
  frontLeftJointNameP :: "string ParamT"
  frontRightJointNameP :: "string ParamT"
  backLeftJointNameP :: "string ParamT"
  backRightJointNameP :: "string ParamT"
  robotLength :: "real ParamT"
  robotWidth :: "real ParamT"
  wheelDiamP :: "real ParamT"
  torqueP :: "real ParamT"
  robotNamespaceP :: "string ParamT"
  topicNameP :: "string ParamT"
  robotNamespace :: string
  topicName :: string
  x_' :: double
  y_' :: double
  rot_' :: double
  alive_' :: bool
  joints :: "wheel \<Rightarrow> string"
  odomPose :: "nat \<Rightarrow> double"
  odomVel :: "nat \<Rightarrow> double"
  pos_iface_' :: PositionData

section \<open>Constructor\<close>

text \<open>
  The constructor assigns the members below and leaves the others (\<^verbatim>\<open>y_\<close>,
  \<^verbatim>\<open>joints\<close>, \<^verbatim>\<open>odomPose\<close>, \<^verbatim>\<open>odomVel\<close>, ...) as they are in the fresh object
  \<open>m\<close>. \<open>parent_is_Model\<close> is the outcome of the \<^verbatim>\<open>dynamic_cast<Model*>\<close>,
  \<open>now\<close> the simulation time.
\<close>

definition MecanumDrivePlugin_new ::
  "bool \<Rightarrow> real \<Rightarrow> MecanumDrivePlugin \<Rightarrow> error + MecanumDrivePlugin" where
  "MecanumDrivePlugin_new parent_is_Model now m =
     (if \<not> parent_is_Model
      then Inl (GazeboError ''Mecanum_Position2d controller requires a Model as its parent'')
      else Inr (m\<lparr>
        enableMotors := True,
        wheelSpeed := (\<lambda>_. Finite 0),
        prevUpdateTime := now,
        frontLeftJointNameP := new_ParamT ''frontLeftJoint'' '''' 1,
        frontRightJointNameP := new_ParamT ''frontRightJoint'' '''' 1,
        backLeftJointNameP := new_ParamT ''backLeftJoint'' '''' 1,
        backRightJointNameP := new_ParamT ''backRightJoint'' '''' 1,
        robotLength := new_ParamT ''robotLength'' 0.25 1,
        robotWidth := new_ParamT ''robotLength'' 0.27 1,
        wheelDiamP := new_ParamT ''wheelDiameter'' 0.15 1,
        torqueP := new_ParamT ''torque'' 10.0 1,
        robotNamespaceP := new_ParamT ''robotNamespace'' '''' 0,
        topicNameP := new_ParamT ''topicName'' '''' 1,
        x_' := Finite 0,
        rot_' := Finite 0,
        alive_' := True\<rparr>))"

section \<open>The command slot and the wheel targets\<close>

text \<open>
  \<^verbatim>\<open>cmdVelCallback\<close> stores the three fields of a \<^verbatim>\<open>geometry_msgs::Twist\<close>
  (\<^verbatim>\<open>linear.x\<close>, \<^verbatim>\<open>linear.y\<close>, \<^verbatim>\<open>angular.z\<close>) under the lock.
\<close>

record Twist =
  linear_x :: double
  linear_y :: double
  angular_z :: double

definition cmdVelCallback :: "Twist \<Rightarrow> MecanumDrivePlugin \<Rightarrow> MecanumDrivePlugin" where
  "cmdVelCallback cmd_msg s =
     s\<lparr>x_' := linear_x cmd_msg, y_' := linear_y cmd_msg, rot_' := angular_z cmd_msg\<rparr>"

text \<open>
  \<^verbatim>\<open>GetPositionCmd\<close>, run without interference (its interleaving with the
  callback is modelled further down): it copies the stored command and computes
  the four wheel targets.
\<close>

definition GetPositionCmd :: "MecanumDrivePlugin \<Rightarrow> MecanumDrivePlugin" where
  "GetPositionCmd s =
     (let rl = GetValue (robotLength s);
          rw = GetValue (robotWidth s);
          wd = GetValue (wheelDiamP s);
          l_total = rl + rw;
          vx = x_' s;
          vy = y_' s;
          va = rot_' s
      in s\<lparr>enableMotors := True,
            wheelSpeed := (wheelSpeed s)
              (FRONT_LEFT := ddiv ((vx + vy - Finite l_total * va) * Finite 2) wd,
               FRONT_RIGHT := ddiv ((vx - vy + Finite l_total * va) * Finite 2) wd,
               BACK_LEFT := ddiv ((vx - vy - Finite l_total * va) * Finite 2) wd,
               BACK_RIGHT := ddiv ((vx + vy + Finite l_total * va) * Finite 2) wd)\<rparr>)"

section \<open>The simulation host\<close>

text \<open>
  The Gazebo objects the plugin calls into are outside the repository; the model
  keeps of them what the plugin can observe. A joint has the angular rate that
  \<^verbatim>\<open>GetVelocity(0)\<close> reports, and the two motor parameters that \<^verbatim>\<open>SetVelocity(0, v)\<close>
  and \<^verbatim>\<open>SetMaxForce(0, f)\<close> set; the rate only changes when the host steps its
  physics, between two updates of the controller.
\<close>

record Joint =
  velocity :: double
  target_velocity :: double
  max_force :: double

text \<open>What the plugin hands to the transport layer.\<close>

record Odometry =
  position_x :: double
  position_y :: double
  euler_roll :: double
  euler_pitch :: double
  euler_yaw :: double
  twist_linear_x :: double
  twist_linear_y :: double
  twist_angular_z :: double

text \<open>Every call into the host, in the order in which the plugin makes it.\<close>

datatype host_call =
    Call_GetJoint string
  | Call_GetSimTime
  | Call_GetVelocity string
  | Call_SetVelocity string double
  | Call_SetMaxForce string double
  | Call_ros_init string
  | Call_subscribe string
  | Call_advertise string
  | Call_sendTransform Odometry
  | Call_publish_model_state Odometry
  | Call_publish_odom Odometry

record World =
  simTime :: real
  model_joints :: "string list"
  joint :: "string \<Rightarrow> Joint"
  calls :: "host_call list"

definition called :: "host_call \<Rightarrow> World \<Rightarrow> World" where
  "called c w = w\<lparr>calls := calls w @ [c]\<rparr>"

text \<open>\<^verbatim>\<open>parent_->GetJoint(name)\<close>: the joint of that name, or \<^verbatim>\<open>NULL\<close>.\<close>

definition GetJoint :: "string \<Rightarrow> World \<Rightarrow> string option \<times> World" where
  "GetJoint n w =
     (if n \<in> set (model_joints w) then Some n else None, called (Call_GetJoint n) w)"

definition GetSimTime :: "World \<Rightarrow> real \<times> World" where
  "GetSimTime w = (simTime w, called Call_GetSimTime w)"

definition GetVelocity :: "string \<Rightarrow> World \<Rightarrow> double \<times> World" where
  "GetVelocity j w = (velocity (joint w j), called (Call_GetVelocity j) w)"

definition SetVelocity :: "string \<Rightarrow> double \<Rightarrow> World \<Rightarrow> World" where
  "SetVelocity j v w =
     called (Call_SetVelocity j v) (w\<lparr>joint := (joint w)(j := (joint w j)\<lparr>target_velocity := v\<rparr>)\<rparr>)"

definition SetMaxForce :: "string \<Rightarrow> double \<Rightarrow> World \<Rightarrow> World" where
  "SetMaxForce j f w =
     called (Call_SetMaxForce j f) (w\<lparr>joint := (joint w)(j := (joint w j)\<lparr>max_force := f\<rparr>)\<rparr>)"

section \<open>Loading\<close>

text \<open>
  The attributes of the controller's XML node, already converted to the type of
  the parameter that reads them.
\<close>

record XMLConfigNode =
  string_values :: "string \<rightharpoonup> string"
  float_values :: "string \<rightharpoonup> real"

text \<open>
  \<^verbatim>\<open>ParamT<T>::Load(node)\<close> belongs to Gazebo. It takes the attribute named by the
  parameter's key; when the node has none, a required parameter raises and an
  optional one takes its default. The theorems below assume that the attribute
  of every required parameter is present (or that loading has succeeded), so
  they do not depend on what a missing required attribute does.
\<close>

definition Load :: "'a ParamT \<Rightarrow> (string \<rightharpoonup> 'a) \<Rightarrow> error + 'a ParamT" where
  "Load p attrs =
     (case attrs (key p) of
        Some v \<Rightarrow> Inr (p\<lparr>GetValue := v\<rparr>)
      | None \<Rightarrow>
          if required p \<noteq> 0
          then Inl (GazeboError (''unable to find required string attribute['' @ key p @ '']''))
          else Inr (p\<lparr>GetValue := defaultValue p\<rparr>))"

definition bind_err :: "error + 'a \<Rightarrow> ('a \<Rightarrow> error + 'b) \<Rightarrow> error + 'b" where
  "bind_err r f = (case r of Inl e \<Rightarrow> Inl e | Inr a \<Rightarrow> f a)"

text \<open>Lines 119 to 126 of \<^verbatim>\<open>LoadChild\<close>: the eight parameters, in order.\<close>

definition load_parameters ::
  "XMLConfigNode \<Rightarrow> MecanumDrivePlugin \<Rightarrow> error + MecanumDrivePlugin" where
  "load_parameters node s =
     bind_err (Load (frontLeftJointNameP s) (string_values node)) (\<lambda>p1.
     bind_err (Load (frontRightJointNameP s) (string_values node)) (\<lambda>p2.
     bind_err (Load (backLeftJointNameP s) (string_values node)) (\<lambda>p3.
     bind_err (Load (backRightJointNameP s) (string_values node)) (\<lambda>p4.
     bind_err (Load (robotLength s) (float_values node)) (\<lambda>p5.
     bind_err (Load (robotWidth s) (float_values node)) (\<lambda>p6.
     bind_err (Load (wheelDiamP s) (float_values node)) (\<lambda>p7.
     bind_err (Load (torqueP s) (float_values node)) (\<lambda>p8.
       Inr (s\<lparr>frontLeftJointNameP := p1, frontRightJointNameP := p2,
              backLeftJointNameP := p3, backRightJointNameP := p4,
              robotLength := p5, robotWidth := p6, wheelDiamP := p7,
              torqueP := p8\<rparr>)))))))))"

text \<open>
  Lines 145 to 167: the namespace, the ROS node, the topic name, the
  subscription and the two publishers.
\<close>

definition connect_ros ::
  "XMLConfigNode \<Rightarrow> World \<times> MecanumDrivePlugin \<Rightarrow> World \<times> (error + MecanumDrivePlugin)" where
  "connect_ros node ws =
     (let (w, s) = ws in
      case Load (robotNamespaceP s) (string_values node) of
        Inl e \<Rightarrow> (w, Inl e)
      | Inr pn \<Rightarrow>
          let s1 = s\<lparr>robotNamespaceP := pn, robotNamespace := GetValue pn\<rparr>;
              w1 = called (Call_ros_init ''mecanum_drive_plugin'') w
          in (case Load (topicNameP s1) (string_values node) of
                Inl e \<Rightarrow> (w1, Inl e)
              | Inr pt \<Rightarrow>
                  let s2 = s1\<lparr>topicNameP := pt, topicName := GetValue pt\<rparr>;
                      w2 = called (Call_subscribe (topicName s2)) w1;
                      w3 = called (Call_advertise ''odom'') w2;
                      w4 = called (Call_advertise ''/gazebo/set_model_state'') w3
                  in (w4, Inr s2)))"

text \<open>
  \<^verbatim>\<open>LoadChild\<close>: the parameters, the four joint lookups, the four checks in the
  order front left, front right, back left, back right, then the ROS side. An
  exception leaves the function with the error and no controller. The position
  interface that line 116 fetches is the member \<open>pos_iface_'\<close>.
\<close>

definition LoadChild ::
  "XMLConfigNode \<Rightarrow> World \<times> MecanumDrivePlugin \<Rightarrow> World \<times> (error + MecanumDrivePlugin)" where
  "LoadChild node ws =
     (let (w, s) = ws in
      case load_parameters node s of
        Inl e \<Rightarrow> (w, Inl e)
      | Inr s1 \<Rightarrow>
          let (jfl, w1) = GetJoint (GetValue (frontLeftJointNameP s1)) w;
              (jfr, w2) = GetJoint (GetValue (frontRightJointNameP s1)) w1;
              (jbl, w3) = GetJoint (GetValue (backLeftJointNameP s1)) w2;
              (jbr, w4) = GetJoint (GetValue (backRightJointNameP s1)) w3
          in (case (jfl, jfr, jbl, jbr) of
               (None, _, _, _) \<Rightarrow>
                 (w4, Inl (GazeboError ''The controller couldn't get FRONT LEFT hinge joint''))
             | (Some fl, None, _, _) \<Rightarrow>
                 (w4, Inl (GazeboError ''The controller couldn't get FRONT RIGHT hinge joint''))
             | (Some fl, Some fr, None, _) \<Rightarrow>
                 (w4, Inl (GazeboError ''The controller couldn't get BACK LEFT hinge joint''))
             | (Some fl, Some fr, Some bl, None) \<Rightarrow>
                 (w4, Inl (GazeboError ''The controller couldn't get BACK RIGHT hinge joint''))
             | (Some fl, Some fr, Some bl, Some br) \<Rightarrow>
                 connect_ros node
                   (w4, s1\<lparr>joints := (joints s1)
                          (FRONT_LEFT := fl, FRONT_RIGHT := fr, BACK_LEFT := bl, BACK_RIGHT := br)\<rparr>)))"

text \<open>
  \<^verbatim>\<open>InitChild\<close> and \<^verbatim>\<open>ResetChild\<close> zero the odometry; \<^verbatim>\<open>InitChild\<close> also starts the
  thread of the callback queue, whose statements are modelled further down.
\<close>

definition ResetChild :: "MecanumDrivePlugin \<Rightarrow> MecanumDrivePlugin" where
  "ResetChild s =
     s\<lparr>odomPose := (odomPose s)(0 := Finite 0, 1 := Finite 0, 2 := Finite 0),
       odomVel := (odomVel s)(0 := Finite 0, 1 := Finite 0, 2 := Finite 0)\<rparr>"

definition InitChild :: "MecanumDrivePlugin \<Rightarrow> MecanumDrivePlugin" where
  "InitChild s =
     s\<lparr>odomPose := (odomPose s)(0 := Finite 0, 1 := Finite 0, 2 := Finite 0),
       odomVel := (odomVel s)(0 := Finite 0, 1 := Finite 0, 2 := Finite 0)\<rparr>"

section \<open>The update step\<close>

text \<open>
  Modelled from the spec: the macro \<^verbatim>\<open>NORMALIZE\<close> comes from a Gazebo header and is
  not defined in the repository; the specification says that it wraps an angle
  to \<open>(-\<pi>, \<pi>]\<close>, that is, it returns the angle of that interval which differs
  from its argument by a multiple of \<open>2\<pi>\<close>. An angle that is not finite has no
  such angle, and its result is not finite.
\<close>

definition wrap_angle :: "real \<Rightarrow> real" where
  "wrap_angle a = a - 2 * pi * of_int \<lceil>(a - pi) / (2 * pi)\<rceil>"

fun NORMALIZE :: "double \<Rightarrow> double" where
  "NORMALIZE (Finite a) = Finite (wrap_angle a)"
| "NORMALIZE NonFinite = NonFinite"


text \<open>
  \<^verbatim>\<open>write_position_data\<close> copies the odometry into the position interface; the
  heading goes through \<^verbatim>\<open>NORMALIZE\<close> on the way.
\<close>

definition write_position_data ::
  "World \<times> MecanumDrivePlugin \<Rightarrow> World \<times> MecanumDrivePlugin" where
  "write_position_data ws =
     (let (w, s) = ws;
          (t, w1) = GetSimTime w
      in (w1, s\<lparr>pos_iface_' := (pos_iface_' s)\<lparr>
                 head_time := Finite t,
                 pose_pos_x := odomPose s 0,
                 pose_pos_y := odomPose s 1,
                 pose_yaw := NORMALIZE (odomPose s 2),
                 velocity_pos_x := odomVel s 0,
                 velocity_pos_y := odomVel s 1,
                 velocity_yaw := odomVel s 2,
                 stall := 0\<rparr>\<rparr>))"

text \<open>
  \<^verbatim>\<open>publish_odometry\<close> reads the position interface back and sends the transform,
  the model state and the odometry message, in this order. The orientation is
  kept as the three Euler angles handed to the quaternion conversion; time
  stamps and frame names are left out.
\<close>

definition odom_message :: "PositionData \<Rightarrow> Odometry" where
  "odom_message d =
     \<lparr>position_x = pose_pos_x d, position_y = pose_pos_y d,
      euler_roll = pose_roll d, euler_pitch = pose_pitch d, euler_yaw = pose_yaw d,
      twist_linear_x = velocity_pos_x d, twist_linear_y = velocity_pos_y d,
      twist_angular_z = velocity_yaw d\<rparr>"

definition publish_odometry :: "World \<times> MecanumDrivePlugin \<Rightarrow> World" where
  "publish_odometry ws =
     (let (w, s) = ws;
          odom = odom_message (pos_iface_' s);
          w1 = called (Call_sendTransform odom) w;
          w2 = called (Call_publish_model_state odom) w1
      in called (Call_publish_odom odom) w2)"

text \<open>Lines 253 to 261: the four velocity targets, then the four force limits.\<close>

definition actuate :: "MecanumDrivePlugin \<Rightarrow> World \<Rightarrow> World" where
  "actuate s w =
     (let w1 = SetVelocity (joints s FRONT_LEFT) (wheelSpeed s FRONT_LEFT) w;
          w2 = SetVelocity (joints s FRONT_RIGHT) (wheelSpeed s FRONT_RIGHT) w1;
          w3 = SetVelocity (joints s BACK_LEFT) (wheelSpeed s BACK_LEFT) w2;
          w4 = SetVelocity (joints s BACK_RIGHT) (wheelSpeed s BACK_RIGHT) w3;
          w5 = SetMaxForce (joints s FRONT_LEFT) (Finite (GetValue (torqueP s))) w4;
          w6 = SetMaxForce (joints s FRONT_RIGHT) (Finite (GetValue (torqueP s))) w5;
          w7 = SetMaxForce (joints s BACK_LEFT) (Finite (GetValue (torqueP s))) w6
      in SetMaxForce (joints s BACK_RIGHT) (Finite (GetValue (torqueP s))) w7)"

text \<open>
  Lines 232 to 239 of \<^verbatim>\<open>UpdateChild\<close>: the rate of each joint is read and scaled
  to the surface speed of its wheel, and the three body velocities are computed
  from the four speeds.
\<close>

definition wheel_odometry ::
  "World \<times> MecanumDrivePlugin \<Rightarrow> (double \<times> double \<times> double) \<times> World" where
  "wheel_odometry ws =
     (let (w, s) = ws;
          rl = GetValue (robotLength s);
          rw = GetValue (robotWidth s);
          wd = GetValue (wheelDiamP s);
          (v1, w1) = GetVelocity (joints s FRONT_LEFT) w;
          d1 = Finite (wd / 2) * v1;
          (v2, w2) = GetVelocity (joints s FRONT_RIGHT) w1;
          d2 = Finite (wd / 2) * v2;
          (v3, w3) = GetVelocity (joints s BACK_LEFT) w2;
          d3 = Finite (wd / 2) * v3;
          (v4, w4) = GetVelocity (joints s BACK_RIGHT) w3;
          d4 = Finite (wd / 2) * v4;
          vx = ddiv (d1 + d2 + d3 + d4) 4;
          vy = ddiv (d1 - d2 - d3 + d4) 4;
          va = ddiv (ddiv (Finite 1) (rl + rw) * (- d1 + d2 - d3 + d4)) 4
      in ((vx, vy, va), w4))"

text \<open>
  Lines 242 to 249: the pose is advanced by the body velocities over the step
  time, the heading last, and the velocities are stored.
\<close>

definition integrate_odometry ::
  "double \<Rightarrow> double \<Rightarrow> double \<Rightarrow> real \<Rightarrow> MecanumDrivePlugin \<Rightarrow> MecanumDrivePlugin" where
  "integrate_odometry vx vy va stepTime s =
     (let p0 = odomPose s;
          p1 = p0(0 := p0 0 + (vx * dcos (p0 2) - vy * dsin (p0 2)) * Finite stepTime);
          p2 = p1(1 := p1 1 + (vx * dsin (p1 2) + vy * dcos (p1 2)) * Finite stepTime);
          p3 = p2(2 := p2 2 + va * Finite stepTime)
      in s\<lparr>odomPose := p3, odomVel := (odomVel s)(0 := vx, 1 := vy, 2 := va)\<rparr>)"

text \<open>
  \<^verbatim>\<open>UpdateChild\<close>: the wheel targets from the stored command, the step time,
  the odometry from the joints' rates, the actuation, the two outputs.
\<close>

definition UpdateChild :: "World \<times> MecanumDrivePlugin \<Rightarrow> World \<times> MecanumDrivePlugin" where
  "UpdateChild ws =
     (let (w, s) = ws;
          s1 = GetPositionCmd s;
          (t1, w1) = GetSimTime w;
          stepTime = t1 - prevUpdateTime s1;
          (t2, w2) = GetSimTime w1;
          s2 = s1\<lparr>prevUpdateTime := t2\<rparr>;
          ((vx, vy, va), w3) = wheel_odometry (w2, s2);
          s3 = integrate_odometry vx vy va stepTime s2;
          w4 = (if enableMotors s3 then actuate s3 w3 else w3);
          (w5, s4) = write_position_data (w4, s3)
      in (publish_odometry (w5, s4), s4))"

section \<open>The specification's formulas\<close>

text \<open>
  The specification's \<open>inverse\<close>, written from its words: with
  \<open>L = length + width\<close> every wheel speed is \<open>(vx \<plusminus> vy \<plusminus> L omega) * 2 / wheelDiameter\<close>,
  with the sign pattern of the four wheels. First over the real numbers, then
  with the operations of \<^typ>\<open>double\<close>.
\<close>

definition inverse_formula ::
  "real \<Rightarrow> real \<Rightarrow> real \<Rightarrow> real \<Rightarrow> real \<Rightarrow> real \<Rightarrow> wheel \<Rightarrow> real" where
  "inverse_formula len width wheelDiameter vx vy omega k =
     (let L = len + width in
      case k of
        FRONT_LEFT \<Rightarrow> (vx + vy - L * omega) * 2 / wheelDiameter
      | FRONT_RIGHT \<Rightarrow> (vx - vy + L * omega) * 2 / wheelDiameter
      | BACK_LEFT \<Rightarrow> (vx - vy - L * omega) * 2 / wheelDiameter
      | BACK_RIGHT \<Rightarrow> (vx + vy + L * omega) * 2 / wheelDiameter)"

definition spec_inverse ::
  "real \<Rightarrow> real \<Rightarrow> real \<Rightarrow> double \<Rightarrow> double \<Rightarrow> double \<Rightarrow> wheel \<Rightarrow> double" where
  "spec_inverse len width wheelDiameter vx vy omega k =
     (let L = len + width in
      case k of
        FRONT_LEFT \<Rightarrow> ddiv ((vx + vy - Finite L * omega) * Finite 2) wheelDiameter
      | FRONT_RIGHT \<Rightarrow> ddiv ((vx - vy + Finite L * omega) * Finite 2) wheelDiameter
      | BACK_LEFT \<Rightarrow> ddiv ((vx - vy - Finite L * omega) * Finite 2) wheelDiameter
      | BACK_RIGHT \<Rightarrow> ddiv ((vx + vy + Finite L * omega) * Finite 2) wheelDiameter)"

text \<open>
  The specification's \<open>forward\<close>, written from its words: the surface speed
  \<open>d\<^sub>i = (wheelDiameter / 2) * w\<^sub>i\<close> of each wheel, then the three body velocities.
  Again over the real numbers, then with the operations of \<^typ>\<open>double\<close>.
\<close>

definition forward_formula ::
  "real \<Rightarrow> real \<Rightarrow> real \<Rightarrow> (wheel \<Rightarrow> real) \<Rightarrow> real \<times> real \<times> real" where
  "forward_formula len width wheelDiameter wheelAngularVelocity =
     (let L = len + width;
          d_fl = (wheelDiameter / 2) * wheelAngularVelocity FRONT_LEFT;
          d_fr = (wheelDiameter / 2) * wheelAngularVelocity FRONT_RIGHT;
          d_bl = (wheelDiameter / 2) * wheelAngularVelocity BACK_LEFT;
          d_br = (wheelDiameter / 2) * wheelAngularVelocity BACK_RIGHT
      in ((d_fl + d_fr + d_bl + d_br) / 4,
          (d_fl - d_fr - d_bl + d_br) / 4,
          (1 / L) * (- d_fl + d_fr - d_bl + d_br) / 4))"

definition spec_forward ::
  "real \<Rightarrow> real \<Rightarrow> real \<Rightarrow> (wheel \<Rightarrow> double) \<Rightarrow> double \<times> double \<times> double" where
  "spec_forward len width wheelDiameter wheelAngularVelocity =
     (let L = len + width;
          d_fl = Finite (wheelDiameter / 2) * wheelAngularVelocity FRONT_LEFT;
          d_fr = Finite (wheelDiameter / 2) * wheelAngularVelocity FRONT_RIGHT;
          d_bl = Finite (wheelDiameter / 2) * wheelAngularVelocity BACK_LEFT;
          d_br = Finite (wheelDiameter / 2) * wheelAngularVelocity BACK_RIGHT
      in (ddiv (d_fl + d_fr + d_bl + d_br) 4,
          ddiv (d_fl - d_fr - d_bl + d_br) 4,
          ddiv (ddiv (Finite 1) L * (- d_fl + d_fr - d_bl + d_br)) 4))"

text \<open>The rates the four joints of the controller report in a state of the host.\<close>

definition readings :: "World \<Rightarrow> MecanumDrivePlugin \<Rightarrow> wheel \<Rightarrow> double" where
  "readings w s k = velocity (joint w (joints s k))"

text \<open>The specification's \<open>forward\<close> of those rates, for the geometry of the controller.\<close>

definition body_velocity ::
  "World \<Rightarrow> MecanumDrivePlugin \<Rightarrow> double \<times> double \<times> double" where
  "body_velocity w s =
     spec_forward (GetValue (robotLength s)) (GetValue (robotWidth s))
       (GetValue (wheelDiamP s)) (readings w s)"

text \<open>
  The order the specification gives to a step, as a property of the calls of
  that step: no joint is actuated after the rate of a joint has been read.
\<close>

fun is_actuation :: "host_call \<Rightarrow> bool" where
  "is_actuation (Call_SetVelocity j v) = True"
| "is_actuation (Call_SetMaxForce j f) = True"
| "is_actuation c = False"

fun is_readback :: "host_call \<Rightarrow> bool" where
  "is_readback (Call_GetVelocity j) = True"
| "is_readback c = False"

fun readback_after_actuation :: "host_call list \<Rightarrow> bool" where
  "readback_after_actuation [] = True"
| "readback_after_actuation (c # cs) =
     ((if is_readback c then list_all (\<lambda>c'. \<not> is_actuation c') cs else True)
      \<and> readback_after_actuation cs)"

section \<open>The kinematics in binary64\<close>









section \<open>The two threads around the command slot\<close>

text \<open>
  \<^verbatim>\<open>cmdVelCallback\<close> runs on the callback queue's thread (\<^verbatim>\<open>QueueThread\<close>),
  \<^verbatim>\<open>GetPositionCmd\<close> on the simulator's thread. Here both are cut into their
  statements, and a schedule decides which thread runs its next statement. A
  thread that asks for the lock while the other holds it cannot run.

  The callback thread: wait for a message (\<open>CB_idle\<close>), line 316 (\<open>CB_lock\<close>),
  lines 318, 319, 320 (\<open>CB_x\<close>, \<open>CB_y\<close>, \<open>CB_rot\<close>), line 322 (\<open>CB_unlock\<close>).
  The simulator thread: line 286 (\<open>GP_lock\<close>), lines 293, 294, 295 (\<open>GP_vx\<close>,
  \<open>GP_vy\<close>, \<open>GP_va\<close>), lines 300 to 306 (\<open>GP_wheelSpeed\<close>), line 308
  (\<open>GP_unlock\<close>). The parameters read in lines 287 to 291 do not change after
  loading; \<open>GP_wheelSpeed\<close> reads them together with the command's copy.
\<close>

datatype cb_pc = CB_idle | CB_lock | CB_x | CB_y | CB_rot | CB_unlock

datatype gp_pc = GP_lock | GP_vx | GP_vy | GP_va | GP_wheelSpeed | GP_unlock

record Threads =
  plugin :: MecanumDrivePlugin
  lock_held :: bool
  queue :: "Twist list"
  cb_at :: cb_pc
  cb_msg :: Twist
  gp_at :: gp_pc
  gp_vx :: double
  gp_vy :: double
  gp_va :: double
  completed :: "Twist list"

text \<open>
  \<open>queue\<close> holds the messages that wait for the callback thread, \<open>completed\<close>
  the messages whose callback has returned, oldest first; \<open>gp_vx\<close>, \<open>gp_vy\<close>
  and \<open>gp_va\<close> are the local variables of \<^verbatim>\<open>GetPositionCmd\<close>.

  A schedule is a list of actions: a message arrives, the transport drops the
  oldest waiting message (the subscription's queue is bounded), or one of the
  threads runs one statement.
\<close>

datatype action = Deliver Twist | Drop | Run_callback | Run_simulator

definition fire_callback :: "Threads \<Rightarrow> Threads option" where
  "fire_callback c =
     (case cb_at c of
        CB_idle \<Rightarrow>
          (case queue c of
             [] \<Rightarrow> None
           | m # q \<Rightarrow> Some (c\<lparr>queue := q, cb_msg := m, cb_at := CB_lock\<rparr>))
      | CB_lock \<Rightarrow>
          if lock_held c then None else Some (c\<lparr>lock_held := True, cb_at := CB_x\<rparr>)
      | CB_x \<Rightarrow>
          Some (c\<lparr>plugin := (plugin c)\<lparr>x_' := linear_x (cb_msg c)\<rparr>, cb_at := CB_y\<rparr>)
      | CB_y \<Rightarrow>
          Some (c\<lparr>plugin := (plugin c)\<lparr>y_' := linear_y (cb_msg c)\<rparr>, cb_at := CB_rot\<rparr>)
      | CB_rot \<Rightarrow>
          Some (c\<lparr>plugin := (plugin c)\<lparr>rot_' := angular_z (cb_msg c)\<rparr>, cb_at := CB_unlock\<rparr>)
      | CB_unlock \<Rightarrow>
          Some (c\<lparr>lock_held := False, cb_at := CB_idle,
                  completed := completed c @ [cb_msg c]\<rparr>))"

text \<open>
  Lines 287 to 291 and 300 to 306 of \<^verbatim>\<open>GetPositionCmd\<close>, for the values that its
  local variables \<^verbatim>\<open>vx\<close>, \<^verbatim>\<open>vy\<close> and \<^verbatim>\<open>va\<close> hold.
\<close>

definition wheel_targets ::
  "double \<Rightarrow> double \<Rightarrow> double \<Rightarrow> MecanumDrivePlugin \<Rightarrow> MecanumDrivePlugin" where
  "wheel_targets vx vy va s =
     (let rl = GetValue (robotLength s);
          rw = GetValue (robotWidth s);
          wd = GetValue (wheelDiamP s);
          l_total = rl + rw
      in s\<lparr>enableMotors := True,
            wheelSpeed := (wheelSpeed s)
              (FRONT_LEFT := ddiv ((vx + vy - Finite l_total * va) * Finite 2) wd,
               FRONT_RIGHT := ddiv ((vx - vy + Finite l_total * va) * Finite 2) wd,
               BACK_LEFT := ddiv ((vx - vy - Finite l_total * va) * Finite 2) wd,
               BACK_RIGHT := ddiv ((vx + vy + Finite l_total * va) * Finite 2) wd)\<rparr>)"

definition fire_simulator :: "Threads \<Rightarrow> Threads option" where
  "fire_simulator c =
     (case gp_at c of
        GP_lock \<Rightarrow>
          if lock_held c then None else Some (c\<lparr>lock_held := True, gp_at := GP_vx\<rparr>)
      | GP_vx \<Rightarrow> Some (c\<lparr>gp_vx := x_' (plugin c), gp_at := GP_vy\<rparr>)
      | GP_vy \<Rightarrow> Some (c\<lparr>gp_vy := y_' (plugin c), gp_at := GP_va\<rparr>)
      | GP_va \<Rightarrow> Some (c\<lparr>gp_va := rot_' (plugin c), gp_at := GP_wheelSpeed\<rparr>)
      | GP_wheelSpeed \<Rightarrow>
          Some (c\<lparr>plugin := wheel_targets (gp_vx c) (gp_vy c) (gp_va c) (plugin c),
                  gp_at := GP_unlock\<rparr>)
      | GP_unlock \<Rightarrow> Some (c\<lparr>lock_held := False, gp_at := GP_lock\<rparr>))"

fun fire :: "action \<Rightarrow> Threads \<Rightarrow> Threads option" where
  "fire (Deliver m) c = Some (c\<lparr>queue := queue c @ [m]\<rparr>)"
| "fire Drop c = Some (c\<lparr>queue := tl (queue c)\<rparr>)"
| "fire Run_callback c = fire_callback c"
| "fire Run_simulator c = fire_simulator c"

fun run :: "action list \<Rightarrow> Threads \<Rightarrow> Threads option" where
  "run [] c = Some c"
| "run (a # as) c = (case fire a c of None \<Rightarrow> None | Some c' \<Rightarrow> run as c')"

text \<open>
  The six statements of one call of \<^verbatim>\<open>cmdVelCallback\<close> (taking the message
  included), and the six statements of one call of \<^verbatim>\<open>GetPositionCmd\<close>, each run
  without the other thread in between.
\<close>

definition whole_cmdVelCallback :: "action list" where
  "whole_cmdVelCallback =
     [Run_callback, Run_callback, Run_callback, Run_callback, Run_callback, Run_callback]"

definition whole_GetPositionCmd :: "action list" where
  "whole_GetPositionCmd =
     [Run_simulator, Run_simulator, Run_simulator, Run_simulator, Run_simulator,
      Run_simulator]"

text \<open>Both threads at their first statement, nothing received yet.\<close>

definition threads_start :: "MecanumDrivePlugin \<Rightarrow> Threads" where
  "threads_start p =
     \<lparr>plugin = p, lock_held = False, queue = [], cb_at = CB_idle,
      cb_msg = \<lparr>linear_x = Finite 0, linear_y = Finite 0, angular_z = Finite 0\<rparr>,
      gp_at = GP_lock, gp_vx = Finite 0, gp_vy = Finite 0, gp_va = Finite 0,
      completed = []\<rparr>"

text \<open>The content of the slot, as a command.\<close>

definition stored :: "MecanumDrivePlugin \<Rightarrow> Twist" where
  "stored s = \<lparr>linear_x = x_' s, linear_y = y_' s, angular_z = rot_' s\<rparr>"

text \<open>
  The command written last: the message of the last callback that has returned,
  or what the slot held at the start when none has.
\<close>

definition last_written :: "MecanumDrivePlugin \<Rightarrow> Threads \<Rightarrow> Twist" where
  "last_written p c = last (stored p # completed c)"

text \<open>What holds between any two statements of the two threads.\<close>

definition cb_in_section :: "Threads \<Rightarrow> bool" where
  "cb_in_section c = (cb_at c = CB_x \<or> cb_at c = CB_y \<or> cb_at c = CB_rot \<or> cb_at c = CB_unlock)"

definition gp_in_section :: "Threads \<Rightarrow> bool" where
  "gp_in_section c = (gp_at c \<noteq> GP_lock)"

definition slot_inv :: "MecanumDrivePlugin \<Rightarrow> Threads \<Rightarrow> bool" where
  "slot_inv p c =
     ((lock_held c = (cb_in_section c \<or> gp_in_section c))
      \<and> \<not> (cb_in_section c \<and> gp_in_section c)
      \<and> robotLength (plugin c) = robotLength p
      \<and> robotWidth (plugin c) = robotWidth p
      \<and> wheelDiamP (plugin c) = wheelDiamP p
      \<and> (\<not> cb_in_section c \<longrightarrow>
            x_' (plugin c) = linear_x (last_written p c)
            \<and> y_' (plugin c) = linear_y (last_written p c)
            \<and> rot_' (plugin c) = angular_z (last_written p c))
      \<and> (cb_at c = CB_y \<or> cb_at c = CB_rot \<or> cb_at c = CB_unlock
            \<longrightarrow> x_' (plugin c) = linear_x (cb_msg c))
      \<and> (cb_at c = CB_rot \<or> cb_at c = CB_unlock \<longrightarrow> y_' (plugin c) = linear_y (cb_msg c))
      \<and> (cb_at c = CB_unlock \<longrightarrow> rot_' (plugin c) = angular_z (cb_msg c))
      \<and> (gp_at c = GP_vy \<or> gp_at c = GP_va \<or> gp_at c = GP_wheelSpeed \<or> gp_at c = GP_unlock
            \<longrightarrow> gp_vx c = linear_x (last_written p c))
      \<and> (gp_at c = GP_va \<or> gp_at c = GP_wheelSpeed \<or> gp_at c = GP_unlock
            \<longrightarrow> gp_vy c = linear_y (last_written p c))
      \<and> (gp_at c = GP_wheelSpeed \<or> gp_at c = GP_unlock
            \<longrightarrow> gp_va c = angular_z (last_written p c))
      \<and> (gp_at c = GP_unlock \<longrightarrow>
            (\<forall>k. wheelSpeed (plugin c) k =
               spec_inverse (GetValue (robotLength p)) (GetValue (robotWidth p))
                 (GetValue (wheelDiamP p)) (linear_x (last_written p c))
                 (linear_y (last_written p c)) (angular_z (last_written p c)) k)))"

section \<open>Configurations\<close>

text \<open>
  A node that gives the four joint names, and one that gives the three numbers
  of the controller.
\<close>

definition names_joints ::
  "XMLConfigNode \<Rightarrow> string \<Rightarrow> string \<Rightarrow> string \<Rightarrow> string \<Rightarrow> bool" where
  "names_joints node fl fr bl br =
     (string_values node ''frontLeftJoint'' = Some fl
      \<and> string_values node ''frontRightJoint'' = Some fr
      \<and> string_values node ''backLeftJoint'' = Some bl
      \<and> string_values node ''backRightJoint'' = Some br)"

definition gives_geometry :: "XMLConfigNode \<Rightarrow> real \<Rightarrow> real \<Rightarrow> real \<Rightarrow> bool" where
  "gives_geometry node len wd tq =
     (float_values node ''robotLength'' = Some len
      \<and> float_values node ''wheelDiameter'' = Some wd
      \<and> float_values node ''torque'' = Some tq)"

text \<open>A controller after its eight parameters have taken these values.\<close>

definition loaded_parameters ::
  "string \<Rightarrow> string \<Rightarrow> string \<Rightarrow> string \<Rightarrow> real \<Rightarrow> real \<Rightarrow> real \<Rightarrow> real
     \<Rightarrow> MecanumDrivePlugin \<Rightarrow> MecanumDrivePlugin" where
  "loaded_parameters fl fr bl br len width wd tq s =
     s\<lparr>frontLeftJointNameP := (frontLeftJointNameP s)\<lparr>GetValue := fl\<rparr>,
       frontRightJointNameP := (frontRightJointNameP s)\<lparr>GetValue := fr\<rparr>,
       backLeftJointNameP := (backLeftJointNameP s)\<lparr>GetValue := bl\<rparr>,
       backRightJointNameP := (backRightJointNameP s)\<lparr>GetValue := br\<rparr>,
       robotLength := (robotLength s)\<lparr>GetValue := len\<rparr>,
       robotWidth := (robotWidth s)\<lparr>GetValue := width\<rparr>,
       wheelDiamP := (wheelDiamP s)\<lparr>GetValue := wd\<rparr>,
       torqueP := (torqueP s)\<lparr>GetValue := tq\<rparr>\<rparr>"

fun is_GetJoint :: "host_call \<Rightarrow> bool" where
  "is_GetJoint (Call_GetJoint n) = True"
| "is_GetJoint c = False"

section \<open>A configured robot\<close>

text \<open>
  The host's sequence at start-up: construct, load, initialise. \<open>m\<close> is the
  memory the object is constructed in.
\<close>

definition start_up ::
  "XMLConfigNode \<Rightarrow> World \<Rightarrow> MecanumDrivePlugin \<Rightarrow> World \<times> (error + MecanumDrivePlugin)" where
  "start_up node w m =
     (let (now, w1) = GetSimTime w in
      case MecanumDrivePlugin_new True now m of
        Inl e \<Rightarrow> (w1, Inl e)
      | Inr s \<Rightarrow>
          (case LoadChild node (w1, s) of
             (w2, Inl e) \<Rightarrow> (w2, Inl e)
           | (w2, Inr s') \<Rightarrow> (w2, Inr (InitChild s'))))"

text \<open>
  Between two updates the host advances its clock and the joints move; the log
  of calls starts afresh, so that it holds the calls of the next step only.
\<close>

definition physics :: "real \<Rightarrow> (string \<Rightarrow> double) \<Rightarrow> World \<Rightarrow> World" where
  "physics dt rate w =
     w\<lparr>simTime := simTime w + dt,
       joint := (\<lambda>j. (joint w j)\<lparr>velocity := rate j\<rparr>),
       calls := []\<rparr>"

definition blank :: MecanumDrivePlugin where
  "blank =
     \<lparr>enableMotors = False, wheelSpeed = (\<lambda>_. Finite 0), prevUpdateTime = 0,
      frontLeftJointNameP = new_ParamT [] [] 0, frontRightJointNameP = new_ParamT [] [] 0,
      backLeftJointNameP = new_ParamT [] [] 0, backRightJointNameP = new_ParamT [] [] 0,
      robotLength = new_ParamT [] 0 0, robotWidth = new_ParamT [] 0 0,
      wheelDiamP = new_ParamT [] 0 0, torqueP = new_ParamT [] 0 0,
      robotNamespaceP = new_ParamT [] [] 0, topicNameP = new_ParamT [] [] 0,
      robotNamespace = [], topicName = [],
      x_' = Finite 0, y_' = Finite 0, rot_' = Finite 0, alive_' = False,
      joints = (\<lambda>_. []), odomPose = (\<lambda>_. Finite 0), odomVel = (\<lambda>_. Finite 0),
      pos_iface_' = \<lparr>head_time = Finite 0, pose_pos_x = Finite 0, pose_pos_y = Finite 0,
        pose_pos_z = Finite 0, pose_roll = Finite 0, pose_pitch = Finite 0,
        pose_yaw = Finite 0, velocity_pos_x = Finite 0, velocity_pos_y = Finite 0,
        velocity_yaw = Finite 0, stall = 0\<rparr>\<rparr>"

definition constructed :: MecanumDrivePlugin where
  "constructed = (case MecanumDrivePlugin_new True 0 blank of Inr s \<Rightarrow> s | Inl e \<Rightarrow> blank)"

definition four_wheels :: World where
  "four_wheels =
     \<lparr>simTime = 0, model_joints = [''fl'', ''fr'', ''bl'', ''br''],
      joint = (\<lambda>_. \<lparr>velocity = Finite 0, target_velocity = Finite 0,
                     max_force = Finite 0\<rparr>),
      calls = []\<rparr>"

text \<open>The same model without its back left joint.\<close>

definition three_wheels :: World where
  "three_wheels = four_wheels\<lparr>model_joints := [''fl'', ''fr'', ''br'']\<rparr>"

text \<open>
  A node that names the four joints and gives \<open>robotLength = len\<close>,
  \<open>wheelDiameter = 2\<close> and \<open>torque = 10\<close>.
\<close>

definition node_with_length :: "real \<Rightarrow> XMLConfigNode" where
  "node_with_length len =
     \<lparr>string_values =
        [''frontLeftJoint'' \<mapsto> ''fl'', ''frontRightJoint'' \<mapsto> ''fr'',
         ''backLeftJoint'' \<mapsto> ''bl'', ''backRightJoint'' \<mapsto> ''br'',
         ''topicName'' \<mapsto> ''cmd_vel''],
      float_values = [''robotLength'' \<mapsto> len, ''wheelDiameter'' \<mapsto> 2, ''torque'' \<mapsto> 10]\<rparr>"

text \<open>The controller of that robot after start-up, and the host with it.\<close>

definition robot :: "real \<Rightarrow> World \<times> MecanumDrivePlugin" where
  "robot len =
     (case start_up (node_with_length len) four_wheels blank of
        (w, Inr s) \<Rightarrow> (w, s)
      | (w, Inl e) \<Rightarrow> (w, blank))"


definition tracking :: "string \<Rightarrow> double" where
  "tracking j =
     (if j = ''fl'' then Finite (- 4) else if j = ''fr'' then Finite 6
      else if j = ''bl'' then Finite 0 else Finite 2)"

text \<open>Two commands and a schedule in which the second arrives during a read.\<close>

definition forwards :: Twist where
  "forwards = \<lparr>linear_x = Finite 1, linear_y = Finite 0, angular_z = Finite 0\<rparr>"

definition cmd_A :: Twist where
  "cmd_A = \<lparr>linear_x = Finite 1, linear_y = Finite (- 2), angular_z = Finite 3\<rparr>"

definition cmd_B :: Twist where
  "cmd_B = \<lparr>linear_x = Finite 5, linear_y = Finite 6, angular_z = Finite (- 7)\<rparr>"

definition overlapping :: "action list" where
  "overlapping =
     [Deliver cmd_A, Run_callback, Run_callback, Run_callback, Run_callback, Run_callback,
      Run_callback, Run_simulator, Run_simulator, Deliver cmd_B, Run_callback,
      Run_simulator, Run_simulator]"

definition one_after_the_other :: "action list" where
  "one_after_the_other =
     [Deliver cmd_A, Run_callback, Run_callback, Run_callback, Run_callback, Run_callback,
      Run_callback, Deliver cmd_B, Run_callback, Run_callback, Run_callback, Run_callback,
      Run_callback, Run_callback, Run_simulator, Run_simulator, Run_simulator, Run_simulator,
      Run_simulator]"

section \<open>Properties of the arithmetic\<close>

lemma double_add_zero [simp]: "a + Finite 0 = a"
  by (cases a) simp_all

lemma double_mult_zero [simp]: "Finite x * Finite 0 = Finite 0"
  by simp

lemma is_Finite_arith [simp]:
  "is_Finite (a + b) = (is_Finite a \<and> is_Finite b)"
  "is_Finite (a - b) = (is_Finite a \<and> is_Finite b)"
  "is_Finite (a * b) = (is_Finite a \<and> is_Finite b)"
  "is_Finite (- a) = is_Finite a"
  "is_Finite (ddiv a d) = (is_Finite a \<and> d \<noteq> 0)"
  "is_Finite (dcos a) = is_Finite a"
  "is_Finite (dsin a) = is_Finite a"
  "is_Finite (NORMALIZE a) = is_Finite a"
  by (cases a; cases b; simp)+



section \<open>Properties of the host calls and of the wheel targets\<close>

lemma called_simps [simp]:
  "simTime (called c w) = simTime w"
  "joint (called c w) = joint w"
  "model_joints (called c w) = model_joints w"
  "calls (called c w) = calls w @ [c]"
  by (simp_all add: called_def)

lemma GetSimTime_simps [simp]:
  "fst (GetSimTime w) = simTime w"
  "snd (GetSimTime w) = called Call_GetSimTime w"
  by (simp_all add: GetSimTime_def)

lemma Set_simps [simp]:
  "simTime (SetVelocity j v w) = simTime w"
  "calls (SetVelocity j v w) = calls w @ [Call_SetVelocity j v]"
  "velocity (joint (SetVelocity j v w) j') = velocity (joint w j')"
  "simTime (SetMaxForce j f w) = simTime w"
  "calls (SetMaxForce j f w) = calls w @ [Call_SetMaxForce j f]"
  "velocity (joint (SetMaxForce j f w) j') = velocity (joint w j')"
  by (simp_all add: SetVelocity_def SetMaxForce_def)

lemma GetPositionCmd_frame [simp]:
  "joints (GetPositionCmd s) = joints s"
  "robotLength (GetPositionCmd s) = robotLength s"
  "robotWidth (GetPositionCmd s) = robotWidth s"
  "wheelDiamP (GetPositionCmd s) = wheelDiamP s"
  "torqueP (GetPositionCmd s) = torqueP s"
  "odomPose (GetPositionCmd s) = odomPose s"
  "odomVel (GetPositionCmd s) = odomVel s"
  "prevUpdateTime (GetPositionCmd s) = prevUpdateTime s"
  "pos_iface_' (GetPositionCmd s) = pos_iface_' s"
  "x_' (GetPositionCmd s) = x_' s"
  "y_' (GetPositionCmd s) = y_' s"
  "rot_' (GetPositionCmd s) = rot_' s"
  "enableMotors (GetPositionCmd s) = True"
  by (simp_all add: GetPositionCmd_def Let_def)

lemma wheelSpeed_GetPositionCmd:
  "wheelSpeed (GetPositionCmd s) k =
     spec_inverse (GetValue (robotLength s)) (GetValue (robotWidth s))
       (GetValue (wheelDiamP s)) (x_' s) (y_' s) (rot_' s) k"
  by (cases k) (simp_all add: GetPositionCmd_def spec_inverse_def Let_def)

lemma spec_inverse_Finite:
  "wd \<noteq> 0 \<Longrightarrow>
   spec_inverse len width wd (Finite vx) (Finite vy) (Finite omega) k =
     Finite (inverse_formula len width wd vx vy omega k)"
  by (cases k) (simp_all add: spec_inverse_def inverse_formula_def Let_def)

lemma spec_forward_Finite:
  "len + width \<noteq> 0 \<Longrightarrow>
   spec_forward len width wd (\<lambda>k. Finite (r k)) =
     (Finite (fst (forward_formula len width wd r)),
      Finite (fst (snd (forward_formula len width wd r))),
      Finite (snd (snd (forward_formula len width wd r))))"
  by (simp add: spec_forward_def forward_formula_def Let_def)


section \<open>Properties of the update step\<close>

lemma readings_frame [simp]:
  "readings (called c w) s = readings w s"
  "readings w (GetPositionCmd s) = readings w s"
  "readings w (s\<lparr>prevUpdateTime := t\<rparr>) = readings w s"
  by (simp_all add: readings_def fun_eq_iff)

lemma wheel_odometry_fst:
  "fst (wheel_odometry (w, s)) = body_velocity w s"
  by (simp add: wheel_odometry_def GetVelocity_def Let_def split_def spec_forward_def
      readings_def body_velocity_def)

lemma wheel_odometry_snd:
  "snd (wheel_odometry (w, s)) =
     called (Call_GetVelocity (joints s BACK_RIGHT))
      (called (Call_GetVelocity (joints s BACK_LEFT))
        (called (Call_GetVelocity (joints s FRONT_RIGHT))
          (called (Call_GetVelocity (joints s FRONT_LEFT)) w)))"
  by (simp add: wheel_odometry_def GetVelocity_def Let_def split_def)

lemma body_velocity_frame [simp]:
  "body_velocity (called c w) s = body_velocity w s"
  "body_velocity w (GetPositionCmd s) = body_velocity w s"
  "body_velocity w (s\<lparr>prevUpdateTime := t\<rparr>) = body_velocity w s"
  by (simp_all add: body_velocity_def)

lemma write_position_data_snd:
  "snd (write_position_data ws) =
     (snd ws)\<lparr>pos_iface_' := (pos_iface_' (snd ws))\<lparr>
         head_time := Finite (simTime (fst ws)),
         pose_pos_x := odomPose (snd ws) 0,
         pose_pos_y := odomPose (snd ws) 1,
         pose_yaw := NORMALIZE (odomPose (snd ws) 2),
         velocity_pos_x := odomVel (snd ws) 0,
         velocity_pos_y := odomVel (snd ws) 1,
         velocity_yaw := odomVel (snd ws) 2,
         stall := 0\<rparr>\<rparr>"
  by (simp add: write_position_data_def split_def Let_def)

lemma write_position_data_fst:
  "fst (write_position_data ws) = called Call_GetSimTime (fst ws)"
  by (simp add: write_position_data_def split_def Let_def)

lemma write_position_data_frame [simp]:
  "odomPose (snd (write_position_data ws)) = odomPose (snd ws)"
  "odomVel (snd (write_position_data ws)) = odomVel (snd ws)"
  "pose_yaw (pos_iface_' (snd (write_position_data ws))) = NORMALIZE (odomPose (snd ws) 2)"
  by (simp_all add: write_position_data_snd)

lemma integrate_frame [simp]:
  "odomVel (integrate_odometry vx vy va dt s) = (odomVel s)(0 := vx, 1 := vy, 2 := va)"
  "enableMotors (integrate_odometry vx vy va dt s) = enableMotors s"
  "joints (integrate_odometry vx vy va dt s) = joints s"
  "wheelSpeed (integrate_odometry vx vy va dt s) = wheelSpeed s"
  "torqueP (integrate_odometry vx vy va dt s) = torqueP s"
  by (simp_all add: integrate_odometry_def Let_def)



text \<open>The controller after a step, up to the position interface.\<close>

lemma UpdateChild_odomVel:
  "odomVel (snd (UpdateChild (w, s))) =
     (odomVel s)(0 := fst (body_velocity w s), 1 := fst (snd (body_velocity w s)),
        2 := snd (snd (body_velocity w s)))"
  by (simp add: UpdateChild_def Let_def split_def wheel_odometry_fst)



lemma calls_actuate:
  "calls (actuate s w) = calls w @
     [Call_SetVelocity (joints s FRONT_LEFT) (wheelSpeed s FRONT_LEFT),
      Call_SetVelocity (joints s FRONT_RIGHT) (wheelSpeed s FRONT_RIGHT),
      Call_SetVelocity (joints s BACK_LEFT) (wheelSpeed s BACK_LEFT),
      Call_SetVelocity (joints s BACK_RIGHT) (wheelSpeed s BACK_RIGHT),
      Call_SetMaxForce (joints s FRONT_LEFT) (Finite (GetValue (torqueP s))),
      Call_SetMaxForce (joints s FRONT_RIGHT) (Finite (GetValue (torqueP s))),
      Call_SetMaxForce (joints s BACK_LEFT) (Finite (GetValue (torqueP s))),
      Call_SetMaxForce (joints s BACK_RIGHT) (Finite (GetValue (torqueP s)))]"
  by (simp add: actuate_def Let_def)

lemma calls_publish_odometry:
  "calls (publish_odometry ws) = calls (fst ws) @
     [Call_sendTransform (odom_message (pos_iface_' (snd ws))),
      Call_publish_model_state (odom_message (pos_iface_' (snd ws))),
      Call_publish_odom (odom_message (pos_iface_' (snd ws)))]"
  by (simp add: publish_odometry_def Let_def split_def)

lemma UpdateChild_calls:
  "calls (fst (UpdateChild (w, s))) = calls w @
     [Call_GetSimTime, Call_GetSimTime,
      Call_GetVelocity (joints s FRONT_LEFT), Call_GetVelocity (joints s FRONT_RIGHT),
      Call_GetVelocity (joints s BACK_LEFT), Call_GetVelocity (joints s BACK_RIGHT),
      Call_SetVelocity (joints s FRONT_LEFT) (wheelSpeed (GetPositionCmd s) FRONT_LEFT),
      Call_SetVelocity (joints s FRONT_RIGHT) (wheelSpeed (GetPositionCmd s) FRONT_RIGHT),
      Call_SetVelocity (joints s BACK_LEFT) (wheelSpeed (GetPositionCmd s) BACK_LEFT),
      Call_SetVelocity (joints s BACK_RIGHT) (wheelSpeed (GetPositionCmd s) BACK_RIGHT),
      Call_SetMaxForce (joints s FRONT_LEFT) (Finite (GetValue (torqueP s))),
      Call_SetMaxForce (joints s FRONT_RIGHT) (Finite (GetValue (torqueP s))),
      Call_SetMaxForce (joints s BACK_LEFT) (Finite (GetValue (torqueP s))),
      Call_SetMaxForce (joints s BACK_RIGHT) (Finite (GetValue (torqueP s))),
      Call_GetSimTime,
      Call_sendTransform (odom_message (pos_iface_' (snd (UpdateChild (w, s))))),
      Call_publish_model_state (odom_message (pos_iface_' (snd (UpdateChild (w, s))))),
      Call_publish_odom (odom_message (pos_iface_' (snd (UpdateChild (w, s)))))]"
  by (simp add: UpdateChild_def Let_def split_def calls_publish_odometry write_position_data_fst
      calls_actuate wheel_odometry_snd wheel_odometry_fst)

section \<open>Properties of loading\<close>

lemma Load_present: "attrs (key p) = Some v \<Longrightarrow> Load p attrs = Inr (p\<lparr>GetValue := v\<rparr>)"
  by (simp add: Load_def)

lemma Load_Inr_value:
  "Load p attrs = Inr p' \<Longrightarrow> attrs (key p) = Some v \<Longrightarrow> GetValue p' = v"
  by (auto simp add: Load_def)

lemma new_parameters:
  assumes "MecanumDrivePlugin_new True now m = Inr s"
  shows "key (frontLeftJointNameP s) = ''frontLeftJoint''"
    and "key (frontRightJointNameP s) = ''frontRightJoint''"
    and "key (backLeftJointNameP s) = ''backLeftJoint''"
    and "key (backRightJointNameP s) = ''backRightJoint''"
    and "key (robotLength s) = ''robotLength''"
    and "key (robotWidth s) = ''robotLength''"
    and "key (wheelDiamP s) = ''wheelDiameter''"
    and "key (torqueP s) = ''torque''"
    and "key (robotNamespaceP s) = ''robotNamespace''"
    and "key (topicNameP s) = ''topicName''"
    and "required (robotNamespaceP s) = 0"
    and "defaultValue (robotLength s) = 0.25"
    and "defaultValue (robotWidth s) = 0.27"
  using assms by (auto simp add: MecanumDrivePlugin_new_def new_ParamT_def)

lemma load_parameters_new:
  assumes "MecanumDrivePlugin_new True now m = Inr s"
    and "names_joints node fl fr bl br" and "gives_geometry node len wd tq"
  shows "load_parameters node s = Inr (loaded_parameters fl fr bl br len len wd tq s)"
  using assms(2,3)
  by (simp add: load_parameters_def bind_err_def Load_present new_parameters [OF assms(1)]
      names_joints_def gives_geometry_def loaded_parameters_def)

lemma load_parameters_Inr:
  assumes "load_parameters node s = Inr s1"
  shows "Load (robotLength s) (float_values node) = Inr (robotLength s1)"
    and "Load (robotWidth s) (float_values node) = Inr (robotWidth s1)"
  using assms by (auto simp add: load_parameters_def bind_err_def split: sum.splits)

lemma LoadChild_params_fail:
  "load_parameters node s = Inl e \<Longrightarrow> LoadChild node (w, s) = (w, Inl e)"
  by (simp add: LoadChild_def)

lemma LoadChild_params:
  assumes "load_parameters node s = Inr s1"
  shows "LoadChild node (w, s) =
    (let w4 = called (Call_GetJoint (GetValue (backRightJointNameP s1)))
               (called (Call_GetJoint (GetValue (backLeftJointNameP s1)))
                 (called (Call_GetJoint (GetValue (frontRightJointNameP s1)))
                   (called (Call_GetJoint (GetValue (frontLeftJointNameP s1))) w)));
         J = set (model_joints w)
     in if GetValue (frontLeftJointNameP s1) \<notin> J
        then (w4, Inl (GazeboError ''The controller couldn't get FRONT LEFT hinge joint''))
        else if GetValue (frontRightJointNameP s1) \<notin> J
        then (w4, Inl (GazeboError ''The controller couldn't get FRONT RIGHT hinge joint''))
        else if GetValue (backLeftJointNameP s1) \<notin> J
        then (w4, Inl (GazeboError ''The controller couldn't get BACK LEFT hinge joint''))
        else if GetValue (backRightJointNameP s1) \<notin> J
        then (w4, Inl (GazeboError ''The controller couldn't get BACK RIGHT hinge joint''))
        else connect_ros node
               (w4, s1\<lparr>joints := (joints s1)
                      (FRONT_LEFT := GetValue (frontLeftJointNameP s1),
                       FRONT_RIGHT := GetValue (frontRightJointNameP s1),
                       BACK_LEFT := GetValue (backLeftJointNameP s1),
                       BACK_RIGHT := GetValue (backRightJointNameP s1))\<rparr>))"
  using assms by (simp add: LoadChild_def GetJoint_def Let_def)

lemma connect_ros_Inr:
  assumes "snd (connect_ros node (w, s)) = Inr s'"
  shows "robotLength s' = robotLength s" and "robotWidth s' = robotWidth s"
    and "wheelDiamP s' = wheelDiamP s" and "torqueP s' = torqueP s" and "joints s' = joints s"
  using assms by (auto simp add: connect_ros_def Let_def split: sum.splits)

lemma connect_ros_ok:
  assumes "key (robotNamespaceP s) = ''robotNamespace''" and "required (robotNamespaceP s) = 0"
    and "key (topicNameP s) = ''topicName''" and "string_values node ''topicName'' = Some tn"
  shows "\<exists>s'. snd (connect_ros node (w, s)) = Inr s'"
    and "calls (fst (connect_ros node (w, s))) = calls w @
           [Call_ros_init ''mecanum_drive_plugin'', Call_subscribe tn,
            Call_advertise ''odom'', Call_advertise ''/gazebo/set_model_state'']"
  using assms by (auto simp add: connect_ros_def Load_def Let_def split: option.splits)

lemma LoadChild_Inr:
  assumes "snd (LoadChild node (w, s)) = Inr s'"
  shows "\<exists>s1. load_parameters node s = Inr s1 \<and> robotLength s' = robotLength s1
           \<and> robotWidth s' = robotWidth s1 \<and> wheelDiamP s' = wheelDiamP s1"
proof (cases "load_parameters node s")
  case (Inl e)
  with assms show ?thesis by (simp add: LoadChild_params_fail)
next
  case (Inr s1)
  from assms show ?thesis
    unfolding LoadChild_params [OF Inr] Let_def
    by (auto simp add: Inr split: if_splits dest: connect_ros_Inr)
qed

text \<open>
  Loading a freshly constructed controller from a node that has every required
  attribute: the four lookups, then one of the four errors or the ROS side.
\<close>

lemma LoadChild_new:
  assumes "MecanumDrivePlugin_new True now m = Inr s"
    and "names_joints node fl fr bl br" and "gives_geometry node len wd tq"
  shows "LoadChild node (w, s) =
    (let w4 = called (Call_GetJoint br) (called (Call_GetJoint bl)
                (called (Call_GetJoint fr) (called (Call_GetJoint fl) w)));
         J = set (model_joints w)
     in if fl \<notin> J
        then (w4, Inl (GazeboError ''The controller couldn't get FRONT LEFT hinge joint''))
        else if fr \<notin> J
        then (w4, Inl (GazeboError ''The controller couldn't get FRONT RIGHT hinge joint''))
        else if bl \<notin> J
        then (w4, Inl (GazeboError ''The controller couldn't get BACK LEFT hinge joint''))
        else if br \<notin> J
        then (w4, Inl (GazeboError ''The controller couldn't get BACK RIGHT hinge joint''))
        else connect_ros node
               (w4, (loaded_parameters fl fr bl br len len wd tq s)\<lparr>joints :=
                  (joints s)(FRONT_LEFT := fl, FRONT_RIGHT := fr,
                             BACK_LEFT := bl, BACK_RIGHT := br)\<rparr>))"
  unfolding LoadChild_params [OF load_parameters_new [OF assms]]
  by (simp add: loaded_parameters_def Let_def)

lemma LoadChild_new_success:
  assumes "MecanumDrivePlugin_new True now m = Inr s"
    and "names_joints node fl fr bl br" and "gives_geometry node len wd tq"
    and "string_values node ''topicName'' = Some tn"
    and "fl \<in> set (model_joints w)" and "fr \<in> set (model_joints w)"
    and "bl \<in> set (model_joints w)" and "br \<in> set (model_joints w)"
  shows "\<exists>s'. snd (LoadChild node (w, s)) = Inr s'
           \<and> joints s' = (joints s)(FRONT_LEFT := fl, FRONT_RIGHT := fr,
                                     BACK_LEFT := bl, BACK_RIGHT := br)
           \<and> GetValue (robotLength s') = len \<and> GetValue (robotWidth s') = len
           \<and> GetValue (wheelDiamP s') = wd \<and> GetValue (torqueP s') = tq"
    and "calls (fst (LoadChild node (w, s))) = calls w @
           [Call_GetJoint fl, Call_GetJoint fr, Call_GetJoint bl, Call_GetJoint br,
            Call_ros_init ''mecanum_drive_plugin'', Call_subscribe tn,
            Call_advertise ''odom'', Call_advertise ''/gazebo/set_model_state'']"
proof -
  let ?w4 = "called (Call_GetJoint br) (called (Call_GetJoint bl)
                (called (Call_GetJoint fr) (called (Call_GetJoint fl) w)))"
  let ?s2 = "(loaded_parameters fl fr bl br len len wd tq s)\<lparr>joints :=
                  (joints s)(FRONT_LEFT := fl, FRONT_RIGHT := fr,
                             BACK_LEFT := bl, BACK_RIGHT := br)\<rparr>"
  have eq: "LoadChild node (w, s) = connect_ros node (?w4, ?s2)"
    using assms(5-8) by (simp add: LoadChild_new [OF assms(1-3)] Let_def)
  have k: "key (robotNamespaceP ?s2) = ''robotNamespace''" "required (robotNamespaceP ?s2) = 0"
    "key (topicNameP ?s2) = ''topicName''"
    by (simp_all add: loaded_parameters_def new_parameters [OF assms(1)])
  from connect_ros_ok(1) [OF k assms(4)]
  obtain s' where s': "snd (connect_ros node (?w4, ?s2)) = Inr s'" by blast
  from connect_ros_Inr [OF s']
  have "joints s' = joints ?s2" "robotLength s' = robotLength ?s2" "robotWidth s' = robotWidth ?s2"
    "wheelDiamP s' = wheelDiamP ?s2" "torqueP s' = torqueP ?s2"
    by simp_all
  then show "\<exists>s'. snd (LoadChild node (w, s)) = Inr s'
           \<and> joints s' = (joints s)(FRONT_LEFT := fl, FRONT_RIGHT := fr,
                                     BACK_LEFT := bl, BACK_RIGHT := br)
           \<and> GetValue (robotLength s') = len \<and> GetValue (robotWidth s') = len
           \<and> GetValue (wheelDiamP s') = wd \<and> GetValue (torqueP s') = tq"
    using s' by (simp add: eq loaded_parameters_def)
  show "calls (fst (LoadChild node (w, s))) = calls w @
           [Call_GetJoint fl, Call_GetJoint fr, Call_GetJoint bl, Call_GetJoint br,
            Call_ros_init ''mecanum_drive_plugin'', Call_subscribe tn,
            Call_advertise ''odom'', Call_advertise ''/gazebo/set_model_state'']"
    by (simp add: eq connect_ros_ok(2) [OF k assms(4)])
qed

section \<open>The example robot\<close>

lemma new_blank: "MecanumDrivePlugin_new True 0 blank = Inr constructed"
  by (simp add: constructed_def MecanumDrivePlugin_new_def)

lemma node_with_length_gives:
  "names_joints (node_with_length len) ''fl'' ''fr'' ''bl'' ''br''"
  "gives_geometry (node_with_length len) len 2 10"
  "string_values (node_with_length len) ''topicName'' = Some ''cmd_vel''"
  by (simp_all add: names_joints_def gives_geometry_def node_with_length_def)

lemmas start_up_defs = start_up_def GetSimTime_def MecanumDrivePlugin_new_def LoadChild_def
  load_parameters_def Load_def bind_err_def new_ParamT_def node_with_length_def four_wheels_def
  GetJoint_def connect_ros_def Let_def called_def InitChild_def blank_def

lemma start_up_robot: "start_up (node_with_length len) four_wheels blank = (fst (robot len), Inr (snd (robot len)))"
  by (simp add: robot_def start_up_defs)

lemma robot_controller [simp]:
  "GetValue (robotLength (snd (robot len))) = len"
  "GetValue (robotWidth (snd (robot len))) = len"
  "GetValue (wheelDiamP (snd (robot len))) = 2"
  "GetValue (torqueP (snd (robot len))) = 10"
  "joints (snd (robot len)) FRONT_LEFT = ''fl''"
  "joints (snd (robot len)) FRONT_RIGHT = ''fr''"
  "joints (snd (robot len)) BACK_LEFT = ''bl''"
  "joints (snd (robot len)) BACK_RIGHT = ''br''"
  "prevUpdateTime (snd (robot len)) = 0"
  "odomPose (snd (robot len)) i = Finite 0"
  "x_' (snd (robot len)) = Finite 0"
  "y_' (snd (robot len)) = Finite 0"
  "rot_' (snd (robot len)) = Finite 0"
  by (simp_all add: robot_def start_up_defs)

lemma robot_host [simp]:
  "simTime (fst (robot len)) = 0"
  "model_joints (fst (robot len)) = [''fl'', ''fr'', ''bl'', ''br'']"
  by (simp_all add: robot_def start_up_defs)

lemma physics_simps [simp]:
  "simTime (physics dt rate w) = simTime w + dt"
  "velocity (joint (physics dt rate w) j) = rate j"
  "calls (physics dt rate w) = []"
  by (simp_all add: physics_def)

lemma cmdVelCallback_simps [simp]:
  "x_' (cmdVelCallback m s) = linear_x m"
  "y_' (cmdVelCallback m s) = linear_y m"
  "rot_' (cmdVelCallback m s) = angular_z m"
  "robotLength (cmdVelCallback m s) = robotLength s"
  "robotWidth (cmdVelCallback m s) = robotWidth s"
  "wheelDiamP (cmdVelCallback m s) = wheelDiamP s"
  "joints (cmdVelCallback m s) = joints s"
  "prevUpdateTime (cmdVelCallback m s) = prevUpdateTime s"
  "odomPose (cmdVelCallback m s) = odomPose s"
  by (simp_all add: cmdVelCallback_def)



section \<open>The invariant of the two threads\<close>

lemma slot_inv_start: "slot_inv p (threads_start p)"
  by (simp add: slot_inv_def threads_start_def cb_in_section_def gp_in_section_def
      last_written_def stored_def)

lemma last_written_frame [simp]:
  "last_written p (c\<lparr>queue := q\<rparr>) = last_written p c"
  "last_written p (c\<lparr>plugin := s\<rparr>) = last_written p c"
  "last_written p (c\<lparr>lock_held := b\<rparr>) = last_written p c"
  "last_written p (c\<lparr>cb_at := x\<rparr>) = last_written p c"
  "last_written p (c\<lparr>cb_msg := m\<rparr>) = last_written p c"
  "last_written p (c\<lparr>gp_at := y\<rparr>) = last_written p c"
  "last_written p (c\<lparr>gp_vx := r\<rparr>) = last_written p c"
  "last_written p (c\<lparr>gp_vy := r\<rparr>) = last_written p c"
  "last_written p (c\<lparr>gp_va := r\<rparr>) = last_written p c"
  "last_written p (c\<lparr>completed := xs\<rparr>) = last (stored p # xs)"
  by (simp_all add: last_written_def)

lemmas slot_defs = slot_inv_def cb_in_section_def gp_in_section_def

lemma slot_inv_callback:
  assumes "slot_inv p c" and "fire_callback c = Some c'"
  shows "slot_inv p c'"
proof (cases "cb_at c")
  case CB_idle
  with assms show ?thesis
    by (clarsimp simp add: fire_callback_def slot_defs split: list.splits)
next
  case CB_lock
  with assms show ?thesis
    by (clarsimp simp add: fire_callback_def slot_defs split: if_splits)
next
  case CB_x
  with assms show ?thesis by (clarsimp simp add: fire_callback_def slot_defs)
next
  case CB_y
  with assms show ?thesis by (clarsimp simp add: fire_callback_def slot_defs)
next
  case CB_rot
  with assms show ?thesis by (clarsimp simp add: fire_callback_def slot_defs)
next
  case CB_unlock
  with assms show ?thesis by (clarsimp simp add: fire_callback_def slot_defs)
qed

lemma wheel_targets_simps [simp]:
  "wheelSpeed (wheel_targets vx vy va s) k =
     spec_inverse (GetValue (robotLength s)) (GetValue (robotWidth s))
       (GetValue (wheelDiamP s)) vx vy va k"
  "x_' (wheel_targets vx vy va s) = x_' s"
  "y_' (wheel_targets vx vy va s) = y_' s"
  "rot_' (wheel_targets vx vy va s) = rot_' s"
  "robotLength (wheel_targets vx vy va s) = robotLength s"
  "robotWidth (wheel_targets vx vy va s) = robotWidth s"
  "wheelDiamP (wheel_targets vx vy va s) = wheelDiamP s"
  by (cases k; simp add: wheel_targets_def spec_inverse_def Let_def)+

lemma GetPositionCmd_wheel_targets:
  "GetPositionCmd s = wheel_targets (x_' s) (y_' s) (rot_' s) s"
  by (simp add: GetPositionCmd_def wheel_targets_def Let_def)

lemma slot_inv_simulator:
  assumes "slot_inv p c" and "fire_simulator c = Some c'"
  shows "slot_inv p c'"
proof (cases "gp_at c")
  case GP_lock
  with assms show ?thesis
    by (clarsimp simp add: fire_simulator_def slot_defs split: if_splits)
next
  case GP_vx
  with assms show ?thesis by (clarsimp simp add: fire_simulator_def slot_defs)
next
  case GP_vy
  with assms show ?thesis by (clarsimp simp add: fire_simulator_def slot_defs)
next
  case GP_va
  with assms show ?thesis by (clarsimp simp add: fire_simulator_def slot_defs)
next
  case GP_wheelSpeed
  with assms show ?thesis
    by (clarsimp simp add: fire_simulator_def slot_defs)
next
  case GP_unlock
  with assms show ?thesis by (clarsimp simp add: fire_simulator_def slot_defs)
qed

lemma slot_inv_fire:
  assumes "slot_inv p c" and "fire a c = Some c'"
  shows "slot_inv p c'"
proof (cases a)
  case (Deliver m)
  with assms(2) have "c' = c\<lparr>queue := queue c @ [m]\<rparr>" by auto
  with assms(1) show ?thesis by (simp add: slot_defs)
next
  case Drop
  with assms(2) have "c' = c\<lparr>queue := tl (queue c)\<rparr>" by auto
  with assms(1) show ?thesis by (simp add: slot_defs)
next
  case Run_callback
  with assms show ?thesis by (simp add: slot_inv_callback)
next
  case Run_simulator
  with assms show ?thesis by (simp add: slot_inv_simulator)
qed

lemma slot_inv_run: "slot_inv p c \<Longrightarrow> run sched c = Some c' \<Longrightarrow> slot_inv p c'"
proof (induction sched arbitrary: c)
  case Nil
  then show ?case by simp
next
  case (Cons a sched)
  then show ?case by (auto split: option.splits dest: slot_inv_fire)
qed

lemma slot_inv_reachable: "run sched (threads_start p) = Some c \<Longrightarrow> slot_inv p c"
  using slot_inv_run [OF slot_inv_start] .

lemma whole_GetPositionCmd_run:
  assumes "\<not> lock_held c" and "gp_at c = GP_lock"
  shows "run whole_GetPositionCmd c =
           Some (c\<lparr>plugin := GetPositionCmd (plugin c), gp_vx := x_' (plugin c),
                   gp_vy := y_' (plugin c), gp_va := rot_' (plugin c)\<rparr>)"
  using assms
  by (simp add: whole_GetPositionCmd_def fire_simulator_def GetPositionCmd_wheel_targets)

lemma whole_cmdVelCallback_run:
  assumes "\<not> lock_held c" and "cb_at c = CB_idle" and "queue c = m # q"
  shows "run whole_cmdVelCallback c =
           Some (c\<lparr>plugin := cmdVelCallback m (plugin c), queue := q, cb_msg := m,
                   completed := completed c @ [m]\<rparr>)"
  using assms
  by (simp add: whole_cmdVelCallback_def fire_callback_def cmdVelCallback_def)

section \<open>Inverse kinematics\<close>

text \<open>
  C1. \<^verbatim>\<open>GetPositionCmd\<close> leaves in \<^verbatim>\<open>wheelSpeed\<close> the specification's inverse
  kinematics of the stored command, for each of the four wheels: every wheel
  speed is \<open>(vx \<plusminus> vy \<plusminus> L omega) * 2 / wheelDiameter\<close> with \<open>L = length + width\<close> and
  the sign pattern of \<open>spec_inverse\<close>; for a finite command and a wheel diameter
  other than zero this is the number that the formula gives over the reals.
  For the command \<open>(1, 0, 0)\<close> and a wheel diameter other than zero, all four
  wheel speeds are \<open>2 / wheelDiameter\<close>.
\<close>

theorem C1_inverse_kinematics:
  "wheelSpeed (GetPositionCmd s) k =
     spec_inverse (GetValue (robotLength s)) (GetValue (robotWidth s))
       (GetValue (wheelDiamP s)) (x_' s) (y_' s) (rot_' s) k
   \<and> (GetValue (wheelDiamP s) \<noteq> 0 \<and> x_' s = Finite vx \<and> y_' s = Finite vy
        \<and> rot_' s = Finite omega \<longrightarrow>
        wheelSpeed (GetPositionCmd s) k =
          Finite (inverse_formula (GetValue (robotLength s)) (GetValue (robotWidth s))
                    (GetValue (wheelDiamP s)) vx vy omega k))
   \<and> (GetValue (wheelDiamP s) \<noteq> 0 \<and> x_' s = Finite 1 \<and> y_' s = Finite 0
        \<and> rot_' s = Finite 0 \<longrightarrow>
        wheelSpeed (GetPositionCmd s) k = Finite (2 / GetValue (wheelDiamP s)))"
  by (cases k)
     (simp_all add: GetPositionCmd_def spec_inverse_def inverse_formula_def Let_def)

theorem C1_inverse_kinematics_witness:
  "GetValue (wheelDiamP (cmdVelCallback forwards (snd (robot (1/2))))) \<noteq> 0
   \<and> x_' (cmdVelCallback forwards (snd (robot (1/2)))) = Finite 1
   \<and> y_' (cmdVelCallback forwards (snd (robot (1/2)))) = Finite 0
   \<and> rot_' (cmdVelCallback forwards (snd (robot (1/2)))) = Finite 0
   \<and> wheelSpeed (GetPositionCmd (cmdVelCallback forwards (snd (robot (1/2))))) BACK_LEFT
       = Finite 1
   \<and> inverse_formula (1/2) (1/2) 2 1 0 0 BACK_LEFT = 1"
proof -
  let ?s = "cmdVelCallback forwards (snd (robot (1/2)))"
  have h: "GetValue (wheelDiamP ?s) \<noteq> 0" "x_' ?s = Finite 1" "y_' ?s = Finite 0"
    "rot_' ?s = Finite 0"
    by (simp_all add: forwards_def)
  from C1_inverse_kinematics [of ?s BACK_LEFT 1 0 0] h
  have a: "wheelSpeed (GetPositionCmd ?s) BACK_LEFT = Finite (2 / GetValue (wheelDiamP ?s))"
    and b: "wheelSpeed (GetPositionCmd ?s) BACK_LEFT =
          Finite (inverse_formula (GetValue (robotLength ?s)) (GetValue (robotWidth ?s))
                    (GetValue (wheelDiamP ?s)) 1 0 0 BACK_LEFT)"
    by blast+
  from a have a': "wheelSpeed (GetPositionCmd ?s) BACK_LEFT = Finite 1" by simp
  from b a' have "inverse_formula (1/2) (1/2) 2 1 0 0 BACK_LEFT = 1" by simp
  with h a' show ?thesis by simp
qed

section \<open>Forward kinematics\<close>

text \<open>
  C2. In every update the velocities stored in \<^verbatim>\<open>odomVel\<close> are the specification's
  forward kinematics of the four rates read from the joints: each rate is scaled
  to the surface speed \<open>d\<^sub>i = (wheelDiameter / 2) * w\<^sub>i\<close>, and \<open>vx\<close>, \<open>vy\<close> and \<open>omega\<close>
  are the three signed sums of \<open>spec_forward\<close>, with \<open>L = length + width\<close>; for
  finite rates and \<open>L\<close> other than zero these are the numbers that the formula
  gives over the reals.
\<close>

theorem C2_forward_kinematics:
  "(odomVel (snd (UpdateChild (w, s))) 0,
    odomVel (snd (UpdateChild (w, s))) 1,
    odomVel (snd (UpdateChild (w, s))) 2) =
     spec_forward (GetValue (robotLength s)) (GetValue (robotWidth s))
       (GetValue (wheelDiamP s)) (\<lambda>k. velocity (joint w (joints s k)))
   \<and> (GetValue (robotLength s) + GetValue (robotWidth s) \<noteq> 0
        \<and> (\<lambda>k. velocity (joint w (joints s k))) = (\<lambda>k. Finite (r k)) \<longrightarrow>
      (odomVel (snd (UpdateChild (w, s))) 0,
       odomVel (snd (UpdateChild (w, s))) 1,
       odomVel (snd (UpdateChild (w, s))) 2) =
        (Finite (fst (forward_formula (GetValue (robotLength s)) (GetValue (robotWidth s))
                   (GetValue (wheelDiamP s)) r)),
         Finite (fst (snd (forward_formula (GetValue (robotLength s))
                   (GetValue (robotWidth s)) (GetValue (wheelDiamP s)) r))),
         Finite (snd (snd (forward_formula (GetValue (robotLength s))
                   (GetValue (robotWidth s)) (GetValue (wheelDiamP s)) r)))))"
proof -
  have r: "(\<lambda>k. velocity (joint w (joints s k))) = readings w s"
    by (simp add: readings_def fun_eq_iff)
  have "(odomVel (snd (UpdateChild (w, s))) 0,
    odomVel (snd (UpdateChild (w, s))) 1,
    odomVel (snd (UpdateChild (w, s))) 2) =
     spec_forward (GetValue (robotLength s)) (GetValue (robotWidth s))
       (GetValue (wheelDiamP s)) (\<lambda>k. velocity (joint w (joints s k)))"
    by (simp add: r UpdateChild_odomVel body_velocity_def)
  then show ?thesis
    by (auto simp add: spec_forward_Finite)
qed

theorem C2_forward_kinematics_witness:
  "GetValue (robotLength (snd (robot (1/2)))) + GetValue (robotWidth (snd (robot (1/2)))) \<noteq> 0
   \<and> (\<lambda>k. velocity (joint (physics 1 tracking (fst (robot (1/2))))
                   (joints (snd (robot (1/2))) k)))
       = (\<lambda>k. Finite (case k of FRONT_LEFT \<Rightarrow> - 4 | FRONT_RIGHT \<Rightarrow> 6
                        | BACK_LEFT \<Rightarrow> 0 | BACK_RIGHT \<Rightarrow> 2))
   \<and> (odomVel (snd (UpdateChild (physics 1 tracking (fst (robot (1/2))), snd (robot (1/2))))) 0,
      odomVel (snd (UpdateChild (physics 1 tracking (fst (robot (1/2))), snd (robot (1/2))))) 1,
      odomVel (snd (UpdateChild (physics 1 tracking (fst (robot (1/2))), snd (robot (1/2))))) 2)
       = (Finite 1, Finite (- 2), Finite 3)"
proof -
  let ?r = "\<lambda>k. case k of FRONT_LEFT \<Rightarrow> - 4 | FRONT_RIGHT \<Rightarrow> 6
                        | BACK_LEFT \<Rightarrow> 0 | BACK_RIGHT \<Rightarrow> (2::real)"
  have l: "GetValue (robotLength (snd (robot (1/2))))
             + GetValue (robotWidth (snd (robot (1/2)))) \<noteq> 0"
    by simp
  have "velocity (joint (physics 1 tracking (fst (robot (1/2))))
                   (joints (snd (robot (1/2))) k)) = Finite (?r k)" for k
    by (cases k) (simp_all add: tracking_def)
  then have v: "(\<lambda>k. velocity (joint (physics 1 tracking (fst (robot (1/2))))
                   (joints (snd (robot (1/2))) k))) = (\<lambda>k. Finite (?r k))"
    by (simp add: fun_eq_iff)
  from C2_forward_kinematics [of "physics 1 tracking (fst (robot (1/2)))"
      "snd (robot (1/2))" ?r] l v
  have "(odomVel (snd (UpdateChild (physics 1 tracking (fst (robot (1/2))), snd (robot (1/2))))) 0,
      odomVel (snd (UpdateChild (physics 1 tracking (fst (robot (1/2))), snd (robot (1/2))))) 1,
      odomVel (snd (UpdateChild (physics 1 tracking (fst (robot (1/2))), snd (robot (1/2))))) 2)
       = (Finite (fst (forward_formula (1/2) (1/2) 2 ?r)),
          Finite (fst (snd (forward_formula (1/2) (1/2) 2 ?r))),
          Finite (snd (snd (forward_formula (1/2) (1/2) 2 ?r))))"
    by simp
  with l v show ?thesis
    by (simp add: forward_formula_def Let_def)
qed

section \<open>Round trip\<close>






section \<open>The heading\<close>




section \<open>The order of a step\<close>

text \<open>
  C5 as stated, that the rates used for the odometry are read after the step's
  actuation, fails: in a step of the example robot the four rates are read
  before the first joint is actuated.
\<close>

theorem C5_readback_order_counterexample:
  "\<not> readback_after_actuation (calls (fst (UpdateChild
        (physics 1 tracking (fst (robot (1/2))), snd (robot (1/2))))))"
  by (simp add: UpdateChild_calls)

text \<open>
  C5, amended. In every update the calls into the host are, in this order: the
  clock (twice), the rates of the four joints, the four velocity targets that
  \<^verbatim>\<open>GetPositionCmd\<close> computed from the stored command at the start of the step,
  the four force limits, the clock, and the three publications. The odometry
  of the step is the forward kinematics of the rates the joints had when the
  step began, before its actuation.
\<close>

theorem C5_step_order:
  "calls (fst (UpdateChild (w, s))) = calls w @
     [Call_GetSimTime, Call_GetSimTime,
      Call_GetVelocity (joints s FRONT_LEFT), Call_GetVelocity (joints s FRONT_RIGHT),
      Call_GetVelocity (joints s BACK_LEFT), Call_GetVelocity (joints s BACK_RIGHT),
      Call_SetVelocity (joints s FRONT_LEFT) (wheelSpeed (GetPositionCmd s) FRONT_LEFT),
      Call_SetVelocity (joints s FRONT_RIGHT) (wheelSpeed (GetPositionCmd s) FRONT_RIGHT),
      Call_SetVelocity (joints s BACK_LEFT) (wheelSpeed (GetPositionCmd s) BACK_LEFT),
      Call_SetVelocity (joints s BACK_RIGHT) (wheelSpeed (GetPositionCmd s) BACK_RIGHT),
      Call_SetMaxForce (joints s FRONT_LEFT) (Finite (GetValue (torqueP s))),
      Call_SetMaxForce (joints s FRONT_RIGHT) (Finite (GetValue (torqueP s))),
      Call_SetMaxForce (joints s BACK_LEFT) (Finite (GetValue (torqueP s))),
      Call_SetMaxForce (joints s BACK_RIGHT) (Finite (GetValue (torqueP s))),
      Call_GetSimTime,
      Call_sendTransform (odom_message (pos_iface_' (snd (UpdateChild (w, s))))),
      Call_publish_model_state (odom_message (pos_iface_' (snd (UpdateChild (w, s))))),
      Call_publish_odom (odom_message (pos_iface_' (snd (UpdateChild (w, s)))))]
   \<and> (odomVel (snd (UpdateChild (w, s))) 0,
      odomVel (snd (UpdateChild (w, s))) 1,
      odomVel (snd (UpdateChild (w, s))) 2) = body_velocity w s"
  by (simp add: UpdateChild_calls) (simp add: UpdateChild_odomVel)

section \<open>Geometry and loading\<close>

text \<open>
  C6 as stated, that a geometry with \<open>length + width = 0\<close> is rejected during
  loading, fails: with \<open>robotLength = 0\<close> in its node the example robot starts
  up, and its controller holds a length and a width whose sum is zero.
\<close>

theorem C6_zero_geometry_counterexample:
  "map_sum id (\<lambda>s. GetValue (robotLength s) + GetValue (robotWidth s))
     (snd (start_up (node_with_length 0) four_wheels blank)) = Inr 0"
  by (simp add: start_up_robot)

text \<open>
  C6, amended. Loading validates no geometry value: when the node names four
  joints that the model has and gives a topic name, loading a freshly
  constructed controller succeeds for every value of \<open>robotLength\<close>,
  \<open>wheelDiameter\<close> and \<open>torque\<close>, zero included, and the controller holds these
  values as its length, width and wheel diameter.
\<close>

theorem C6_no_geometry_validation:
  assumes "MecanumDrivePlugin_new True now m = Inr s"
    and "names_joints node fl fr bl br"
    and "gives_geometry node len wd tq"
    and "string_values node ''topicName'' = Some tn"
    and "fl \<in> set (model_joints w)" and "fr \<in> set (model_joints w)"
    and "bl \<in> set (model_joints w)" and "br \<in> set (model_joints w)"
  shows "\<exists>s'. snd (LoadChild node (w, s)) = Inr s'
           \<and> GetValue (robotLength s') = len \<and> GetValue (robotWidth s') = len
           \<and> GetValue (wheelDiamP s') = wd"
  using LoadChild_new_success(1) [OF assms] by blast

theorem C6_no_geometry_validation_witness:
  "MecanumDrivePlugin_new True 0 blank = Inr constructed
   \<and> names_joints (node_with_length 0) ''fl'' ''fr'' ''bl'' ''br''
   \<and> gives_geometry (node_with_length 0) 0 2 10
   \<and> string_values (node_with_length 0) ''topicName'' = Some ''cmd_vel''
   \<and> set [''fl'', ''fr'', ''bl'', ''br''] \<subseteq> set (model_joints four_wheels)
   \<and> (\<exists>s'. snd (LoadChild (node_with_length 0) (four_wheels, constructed)) = Inr s'
           \<and> GetValue (robotLength s') = 0 \<and> GetValue (robotWidth s') = 0
           \<and> GetValue (wheelDiamP s') = 2)"
proof -
  have j: "''fl'' \<in> set (model_joints four_wheels)" "''fr'' \<in> set (model_joints four_wheels)"
    "''bl'' \<in> set (model_joints four_wheels)" "''br'' \<in> set (model_joints four_wheels)"
    by (simp_all add: four_wheels_def)
  from C6_no_geometry_validation [OF new_blank node_with_length_gives j]
  show ?thesis using new_blank node_with_length_gives j by simp
qed

section \<open>The command slot\<close>

text \<open>
  C7. The slot is last-write-wins.

  Without interference: after the callback has stored \<open>A\<close> and then \<open>B\<close> the slot
  holds \<open>B\<close> in its three fields, and the wheel targets that \<^verbatim>\<open>GetPositionCmd\<close>
  then computes are those of \<open>B\<close>.

  The machine of statements is the two functions: the six statements of the
  callback thread, run together, do to the controller what \<^verbatim>\<open>cmdVelCallback\<close>
  does, and the six statements of the simulator thread, run together, do what
  \<^verbatim>\<open>GetPositionCmd\<close> does, with the three fields of the slot in its local
  variables.

  With the two threads interleaved in any way that the lock allows: once
  \<^verbatim>\<open>GetPositionCmd\<close> has copied the three fields, its copy is, as a whole, the
  command written last, that is, the message of the last callback that returned,
  or the initial content when none has returned. In particular, when the
  callbacks of \<open>A\<close> and then \<open>B\<close> were the last two to return, the copy is \<open>B\<close>,
  and never a mixture of fields of \<open>A\<close> and \<open>B\<close>. The wheel targets that the
  interleaved \<^verbatim>\<open>GetPositionCmd\<close> leaves are those that \<^verbatim>\<open>GetPositionCmd\<close> computes
  from the command written last.
\<close>

theorem C7_last_write_wins:
  "stored (cmdVelCallback B (cmdVelCallback A s)) = B
   \<and> wheelSpeed (GetPositionCmd (cmdVelCallback B (cmdVelCallback A s))) k =
       spec_inverse (GetValue (robotLength s)) (GetValue (robotWidth s))
         (GetValue (wheelDiamP s)) (linear_x B) (linear_y B) (angular_z B) k
   \<and> (\<not> lock_held c0 \<and> cb_at c0 = CB_idle \<and> queue c0 = m # q \<longrightarrow>
        run whole_cmdVelCallback c0 =
          Some (c0\<lparr>plugin := cmdVelCallback m (plugin c0), queue := q, cb_msg := m,
                   completed := completed c0 @ [m]\<rparr>))
   \<and> (\<not> lock_held c0 \<and> gp_at c0 = GP_lock \<longrightarrow>
        run whole_GetPositionCmd c0 =
          Some (c0\<lparr>plugin := GetPositionCmd (plugin c0), gp_vx := x_' (plugin c0),
                   gp_vy := y_' (plugin c0), gp_va := rot_' (plugin c0)\<rparr>))
   \<and> (run sched (threads_start s) = Some c \<and> (gp_at c = GP_wheelSpeed \<or> gp_at c = GP_unlock)
        \<longrightarrow> \<lparr>linear_x = gp_vx c, linear_y = gp_vy c, angular_z = gp_va c\<rparr> = last_written s c)
   \<and> (run sched (threads_start s) = Some c \<and> (gp_at c = GP_wheelSpeed \<or> gp_at c = GP_unlock)
        \<and> completed c = earlier @ [A, B]
        \<longrightarrow> \<lparr>linear_x = gp_vx c, linear_y = gp_vy c, angular_z = gp_va c\<rparr> = B)
   \<and> (run sched (threads_start s) = Some c \<and> gp_at c = GP_unlock \<longrightarrow>
        wheelSpeed (plugin c) k =
          wheelSpeed (GetPositionCmd (cmdVelCallback (last_written s c) s)) k)"
proof -
  have seq: "stored (cmdVelCallback B (cmdVelCallback A s)) = B"
    by (simp add: stored_def)
  have tgt: "wheelSpeed (GetPositionCmd (cmdVelCallback B (cmdVelCallback A s))) k =
       spec_inverse (GetValue (robotLength s)) (GetValue (robotWidth s))
         (GetValue (wheelDiamP s)) (linear_x B) (linear_y B) (angular_z B) k"
    by (simp add: wheelSpeed_GetPositionCmd)
  have conc: "\<lparr>linear_x = gp_vx c, linear_y = gp_vy c, angular_z = gp_va c\<rparr> = last_written s c"
    if r: "run sched (threads_start s) = Some c"
      and g: "gp_at c = GP_wheelSpeed \<or> gp_at c = GP_unlock"
  proof -
    from slot_inv_reachable [OF r] g
    have "gp_vx c = linear_x (last_written s c)" "gp_vy c = linear_y (last_written s c)"
      "gp_va c = angular_z (last_written s c)"
      by (auto simp add: slot_inv_def)
    then show ?thesis by simp
  qed
  have lw: "last_written s c = B" if "completed c = earlier @ [A, B]"
    using that by (simp add: last_written_def)
  have ws: "wheelSpeed (plugin c) k =
          wheelSpeed (GetPositionCmd (cmdVelCallback (last_written s c) s)) k"
    if r: "run sched (threads_start s) = Some c" and g: "gp_at c = GP_unlock"
    using slot_inv_reachable [OF r] g
    by (simp add: slot_inv_def wheelSpeed_GetPositionCmd)
  from seq tgt conc lw ws whole_cmdVelCallback_run whole_GetPositionCmd_run
  show ?thesis by metis
qed

theorem C7_last_write_wins_witness:
  "run overlapping (threads_start constructed) \<noteq> None
   \<and> gp_at (the (run overlapping (threads_start constructed))) = GP_wheelSpeed
   \<and> completed (the (run overlapping (threads_start constructed))) = [cmd_A]
   \<and> queue (the (run overlapping (threads_start constructed))) = []
   \<and> cb_msg (the (run overlapping (threads_start constructed))) = cmd_B
   \<and> gp_vx (the (run overlapping (threads_start constructed))) = Finite 1
   \<and> gp_vy (the (run overlapping (threads_start constructed))) = Finite (- 2)
   \<and> gp_va (the (run overlapping (threads_start constructed))) = Finite 3
   \<and> run one_after_the_other (threads_start constructed) \<noteq> None
   \<and> gp_at (the (run one_after_the_other (threads_start constructed))) = GP_unlock
   \<and> completed (the (run one_after_the_other (threads_start constructed))) = [] @ [cmd_A, cmd_B]
   \<and> gp_vx (the (run one_after_the_other (threads_start constructed))) = Finite 5
   \<and> gp_vy (the (run one_after_the_other (threads_start constructed))) = Finite 6
   \<and> gp_va (the (run one_after_the_other (threads_start constructed))) = Finite (- 7)
   \<and> wheelSpeed (plugin (the (run one_after_the_other (threads_start constructed)))) FRONT_LEFT
       = wheelSpeed (GetPositionCmd (cmdVelCallback cmd_B constructed)) FRONT_LEFT
   \<and> \<not> lock_held (threads_start constructed)
   \<and> gp_at (threads_start constructed) = GP_lock
   \<and> plugin (the (run whole_GetPositionCmd (threads_start constructed)))
       = GetPositionCmd constructed
   \<and> cb_at (threads_start constructed) = CB_idle
   \<and> queue ((threads_start constructed)\<lparr>queue := [cmd_A]\<rparr>) = cmd_A # []
   \<and> plugin (the (run whole_cmdVelCallback ((threads_start constructed)\<lparr>queue := [cmd_A]\<rparr>)))
       = cmdVelCallback cmd_A constructed"
proof -
  obtain c1 where c1: "run overlapping (threads_start constructed) = Some c1"
    and g1: "gp_at c1 = GP_wheelSpeed" and d1: "completed c1 = [cmd_A]"
    and q1: "queue c1 = []" and m1: "cb_msg c1 = cmd_B"
    by (simp add: overlapping_def threads_start_def fire_callback_def fire_simulator_def)
  obtain c2 where c2: "run one_after_the_other (threads_start constructed) = Some c2"
    and g2: "gp_at c2 = GP_unlock" and d2: "completed c2 = [] @ [cmd_A, cmd_B]"
    by (simp add: one_after_the_other_def threads_start_def fire_callback_def
        fire_simulator_def)
  from C7_last_write_wins [of cmd_B cmd_A constructed FRONT_LEFT "threads_start constructed"
      cmd_A "[]" overlapping c1 "[]"] c1 g1
  have "\<lparr>linear_x = gp_vx c1, linear_y = gp_vy c1, angular_z = gp_va c1\<rparr>
          = last_written constructed c1"
    by blast
  then have r1: "\<lparr>linear_x = gp_vx c1, linear_y = gp_vy c1, angular_z = gp_va c1\<rparr> = cmd_A"
    by (simp add: last_written_def d1)
  note two = C7_last_write_wins [of cmd_B cmd_A constructed FRONT_LEFT
      "(threads_start constructed)\<lparr>queue := [cmd_A]\<rparr>" cmd_A "[]"
      one_after_the_other c2 "[]"]
  from two c2 g2 d2
  have r2: "\<lparr>linear_x = gp_vx c2, linear_y = gp_vy c2, angular_z = gp_va c2\<rparr> = cmd_B"
    by blast
  from two c2 g2
  have "wheelSpeed (plugin c2) FRONT_LEFT =
          wheelSpeed (GetPositionCmd (cmdVelCallback (last_written constructed c2) constructed))
            FRONT_LEFT"
    by blast
  then have r3: "wheelSpeed (plugin c2) FRONT_LEFT =
          wheelSpeed (GetPositionCmd (cmdVelCallback cmd_B constructed)) FRONT_LEFT"
    by (simp add: last_written_def d2)
  have s0: "\<not> lock_held (threads_start constructed)" "gp_at (threads_start constructed) = GP_lock"
    "cb_at (threads_start constructed) = CB_idle"
    by (simp_all add: threads_start_def)
  have s1: "\<not> lock_held ((threads_start constructed)\<lparr>queue := [cmd_A]\<rparr>)"
    "cb_at ((threads_start constructed)\<lparr>queue := [cmd_A]\<rparr>) = CB_idle"
    "queue ((threads_start constructed)\<lparr>queue := [cmd_A]\<rparr>) = cmd_A # []"
    by (simp_all add: threads_start_def)
  from two s1
  have "run whole_cmdVelCallback ((threads_start constructed)\<lparr>queue := [cmd_A]\<rparr>) =
          Some ((threads_start constructed)\<lparr>queue := [cmd_A]\<rparr>
                  \<lparr>plugin := cmdVelCallback cmd_A
                              (plugin ((threads_start constructed)\<lparr>queue := [cmd_A]\<rparr>)),
                   queue := [], cb_msg := cmd_A,
                   completed := completed ((threads_start constructed)\<lparr>queue := [cmd_A]\<rparr>)
                                  @ [cmd_A]\<rparr>)"
    by blast
  then have r4: "plugin (the (run whole_cmdVelCallback
                    ((threads_start constructed)\<lparr>queue := [cmd_A]\<rparr>)))
       = cmdVelCallback cmd_A constructed"
    by (simp add: threads_start_def)
  from C7_last_write_wins [of cmd_B cmd_A constructed FRONT_LEFT "threads_start constructed"
      cmd_A "[]" overlapping c1 "[]"] s0
  have "run whole_GetPositionCmd (threads_start constructed) =
          Some ((threads_start constructed)
                  \<lparr>plugin := GetPositionCmd (plugin (threads_start constructed)),
                   gp_vx := x_' (plugin (threads_start constructed)),
                   gp_vy := y_' (plugin (threads_start constructed)),
                   gp_va := rot_' (plugin (threads_start constructed))\<rparr>)"
    by blast
  then have r5: "plugin (the (run whole_GetPositionCmd (threads_start constructed)))
       = GetPositionCmd constructed"
    by (simp add: threads_start_def)
  from r1 r2 r3 r4 r5 s0 show ?thesis
    by (simp add: c1 c2 g1 g2 d1 d2 q1 m1 cmd_A_def cmd_B_def)
qed

text \<open>
  C8. The constructor declares the width parameter under the key of the length
  parameter, \<open>robotLength\<close>, with the default 0.27 where the length has 0.25. So
  whenever loading succeeds from a node that has a \<open>robotLength\<close> entry, the
  length and the width both hold that entry, and their sum, the divisor of the
  kinematics, is twice the configured length.
\<close>

theorem C8_width_loads_from_length:
  assumes "MecanumDrivePlugin_new True now m = Inr s"
  shows "key (robotLength s) = ''robotLength'' \<and> key (robotWidth s) = ''robotLength''
       \<and> defaultValue (robotLength s) = 0.25 \<and> defaultValue (robotWidth s) = 0.27
       \<and> (float_values node ''robotLength'' = Some v \<and> snd (LoadChild node (w, s)) = Inr s'
            \<longrightarrow> GetValue (robotLength s') = v \<and> GetValue (robotWidth s') = v
              \<and> GetValue (robotLength s') + GetValue (robotWidth s') = 2 * v)"
proof -
  note k = new_parameters [OF assms]
  have "GetValue (robotLength s') = v \<and> GetValue (robotWidth s') = v"
    if e: "float_values node ''robotLength'' = Some v"
      and l: "snd (LoadChild node (w, s)) = Inr s'"
  proof -
    from LoadChild_Inr [OF l] obtain s1 where s1: "load_parameters node s = Inr s1"
      and eq: "robotLength s' = robotLength s1" "robotWidth s' = robotWidth s1"
      by blast
    from load_parameters_Inr [OF s1] e k(5,6)
    have "GetValue (robotLength s1) = v" "GetValue (robotWidth s1) = v"
      by (simp_all add: Load_Inr_value)
    with eq show ?thesis by simp
  qed
  with k(5,6,12,13) show ?thesis by simp
qed

theorem C8_width_loads_from_length_witness:
  "MecanumDrivePlugin_new True 0 blank = Inr constructed
   \<and> float_values (node_with_length (1/2)) ''robotLength'' = Some (1/2)
   \<and> isl (snd (LoadChild (node_with_length (1/2)) (four_wheels, constructed))) = False
   \<and> GetValue (robotLength (projr (snd (LoadChild (node_with_length (1/2))
        (four_wheels, constructed)))))
     + GetValue (robotWidth (projr (snd (LoadChild (node_with_length (1/2))
        (four_wheels, constructed))))) = 2 * (1/2)"
proof -
  have j: "''fl'' \<in> set (model_joints four_wheels)" "''fr'' \<in> set (model_joints four_wheels)"
    "''bl'' \<in> set (model_joints four_wheels)" "''br'' \<in> set (model_joints four_wheels)"
    by (simp_all add: four_wheels_def)
  from LoadChild_new_success(1) [OF new_blank node_with_length_gives j]
  obtain s' where s': "snd (LoadChild (node_with_length (1/2)) (four_wheels, constructed)) = Inr s'"
    by blast
  have e: "float_values (node_with_length (1/2)) ''robotLength'' = Some (1/2)"
    by (simp add: node_with_length_def)
  from C8_width_loads_from_length [OF new_blank, of "node_with_length (1/2)" "1/2" four_wheels s']
    e s'
  have "GetValue (robotLength s') + GetValue (robotWidth s') = 2 * (1/2)" by blast
  with new_blank e s' show ?thesis by simp
qed

section \<open>Advancing by no time\<close>




section \<open>Missing joints\<close>

text \<open>
  C10. Loading a freshly constructed controller from a node that has the
  required attributes: when one of the four joints is not in the model, loading
  ends with the error of the first missing one, in the order front left, front
  right, back left, back right, and there is no controller to run; when the four
  are in the model, loading succeeds with the four joints in their slots.
  In both cases each joint is looked up exactly once.
\<close>

theorem C10_missing_joint_is_fatal:
  assumes "MecanumDrivePlugin_new True now m = Inr s"
    and "names_joints node fl fr bl br"
    and "gives_geometry node len wd tq"
    and "string_values node ''topicName'' = Some tn"
  shows "(fl \<notin> set (model_joints w) \<longrightarrow> snd (LoadChild node (w, s)) =
            Inl (GazeboError ''The controller couldn't get FRONT LEFT hinge joint''))
       \<and> (fl \<in> set (model_joints w) \<and> fr \<notin> set (model_joints w) \<longrightarrow>
            snd (LoadChild node (w, s)) =
            Inl (GazeboError ''The controller couldn't get FRONT RIGHT hinge joint''))
       \<and> (fl \<in> set (model_joints w) \<and> fr \<in> set (model_joints w)
            \<and> bl \<notin> set (model_joints w) \<longrightarrow>
            snd (LoadChild node (w, s)) =
            Inl (GazeboError ''The controller couldn't get BACK LEFT hinge joint''))
       \<and> (fl \<in> set (model_joints w) \<and> fr \<in> set (model_joints w)
            \<and> bl \<in> set (model_joints w) \<and> br \<notin> set (model_joints w) \<longrightarrow>
            snd (LoadChild node (w, s)) =
            Inl (GazeboError ''The controller couldn't get BACK RIGHT hinge joint''))
       \<and> (fl \<in> set (model_joints w) \<and> fr \<in> set (model_joints w)
            \<and> bl \<in> set (model_joints w) \<and> br \<in> set (model_joints w) \<longrightarrow>
            (\<exists>s'. snd (LoadChild node (w, s)) = Inr s'
               \<and> joints s' FRONT_LEFT = fl \<and> joints s' FRONT_RIGHT = fr
               \<and> joints s' BACK_LEFT = bl \<and> joints s' BACK_RIGHT = br))
       \<and> filter is_GetJoint (calls (fst (LoadChild node (w, s)))) =
           filter is_GetJoint (calls w)
             @ [Call_GetJoint fl, Call_GetJoint fr, Call_GetJoint bl, Call_GetJoint br]"
proof (cases "fl \<in> set (model_joints w) \<and> fr \<in> set (model_joints w)
            \<and> bl \<in> set (model_joints w) \<and> br \<in> set (model_joints w)")
  case True
  then have j: "fl \<in> set (model_joints w)" "fr \<in> set (model_joints w)"
    "bl \<in> set (model_joints w)" "br \<in> set (model_joints w)"
    by simp_all
  from LoadChild_new_success(1) [OF assms j]
  obtain s' where "snd (LoadChild node (w, s)) = Inr s'"
    and "joints s' = (joints s)(FRONT_LEFT := fl, FRONT_RIGHT := fr,
                                BACK_LEFT := bl, BACK_RIGHT := br)"
    by blast
  then have "\<exists>s'. snd (LoadChild node (w, s)) = Inr s'
               \<and> joints s' FRONT_LEFT = fl \<and> joints s' FRONT_RIGHT = fr
               \<and> joints s' BACK_LEFT = bl \<and> joints s' BACK_RIGHT = br"
    by simp
  with j show ?thesis
    by (simp add: LoadChild_new_success(2) [OF assms j])
next
  case False
  then show ?thesis
    by (auto simp add: LoadChild_new [OF assms(1-3)] Let_def)
qed

theorem C10_missing_joint_is_fatal_witness:
  "MecanumDrivePlugin_new True 0 blank = Inr constructed
   \<and> names_joints (node_with_length (1/2)) ''fl'' ''fr'' ''bl'' ''br''
   \<and> gives_geometry (node_with_length (1/2)) (1/2) 2 10
   \<and> string_values (node_with_length (1/2)) ''topicName'' = Some ''cmd_vel''
   \<and> ''bl'' \<notin> set (model_joints three_wheels)
   \<and> snd (LoadChild (node_with_length (1/2)) (three_wheels, constructed)) =
       Inl (GazeboError ''The controller couldn't get BACK LEFT hinge joint'')
   \<and> calls (fst (LoadChild (node_with_length (1/2)) (three_wheels, constructed))) =
       [Call_GetJoint ''fl'', Call_GetJoint ''fr'', Call_GetJoint ''bl'', Call_GetJoint ''br'']
   \<and> set [''fl'', ''fr'', ''bl'', ''br''] \<subseteq> set (model_joints four_wheels)
   \<and> isl (snd (LoadChild (node_with_length (1/2)) (four_wheels, constructed))) = False
   \<and> joints (projr (snd (LoadChild (node_with_length (1/2)) (four_wheels, constructed))))
       BACK_LEFT = ''bl''
   \<and> filter is_GetJoint
       (calls (fst (LoadChild (node_with_length (1/2)) (four_wheels, constructed)))) =
       [Call_GetJoint ''fl'', Call_GetJoint ''fr'', Call_GetJoint ''bl'', Call_GetJoint ''br'']"
proof -
  note missing = C10_missing_joint_is_fatal [where w = three_wheels
      and node = "node_with_length (1/2)", OF new_blank node_with_length_gives]
  note found = C10_missing_joint_is_fatal [where w = four_wheels
      and node = "node_with_length (1/2)", OF new_blank node_with_length_gives]
  have c3: "calls (fst (LoadChild (node_with_length (1/2)) (three_wheels, constructed))) =
       [Call_GetJoint ''fl'', Call_GetJoint ''fr'', Call_GetJoint ''bl'', Call_GetJoint ''br'']"
    by (simp add: LoadChild_new [OF new_blank node_with_length_gives(1,2)] Let_def
        three_wheels_def four_wheels_def)
  have m: "snd (LoadChild (node_with_length (1/2)) (three_wheels, constructed)) =
       Inl (GazeboError ''The controller couldn't get BACK LEFT hinge joint'')"
    using missing by (simp add: three_wheels_def four_wheels_def)
  from found obtain s' where
    s': "snd (LoadChild (node_with_length (1/2)) (four_wheels, constructed)) = Inr s'"
    and b: "joints s' BACK_LEFT = ''bl''"
    by (auto simp add: four_wheels_def)
  from found have f: "filter is_GetJoint
       (calls (fst (LoadChild (node_with_length (1/2)) (four_wheels, constructed)))) =
       [Call_GetJoint ''fl'', Call_GetJoint ''fr'', Call_GetJoint ''bl'', Call_GetJoint ''br'']"
    by (simp add: four_wheels_def)
  from m c3 s' b f new_blank node_with_length_gives show ?thesis
    by (simp add: three_wheels_def four_wheels_def)
qed

end
